theory Spec2Isabelle
  imports Complex_Main "HOL-Library.Word" "HOL-Library.AList"
begin

unbundle bit_operations_syntax

section \<open>Data model (types.ts)\<close>

text \<open>
  A JavaScript number that holds an integer is an \<open>int\<close>; a property value, which may
  hold a fraction, is a \<open>real\<close>. A JavaScript string is the list of its UTF-16 code
  units; \<open>lit\<close> writes a literal. A \<open>Uint8Array\<close> is a list of bytes.
\<close>

type_synonym byte = "8 word"
type_synonym jsstring = "nat list"

definition lit :: "string \<Rightarrow> jsstring" where
  "lit s = map of_char s"

text \<open>The constants of types.ts.\<close>

definition ASE_FILE_MAGIC :: int where "ASE_FILE_MAGIC = 0xA5E0"
definition ASE_FRAME_MAGIC :: int where "ASE_FRAME_MAGIC = 0xF1FA"

definition CelType_RawImage :: int where "CelType_RawImage = 0"
definition CelType_Linked :: int where "CelType_Linked = 1"
definition CelType_CompressedImage :: int where "CelType_CompressedImage = 2"
definition CelType_CompressedTilemap :: int where "CelType_CompressedTilemap = 3"

definition TagDirection_Forward :: int where "TagDirection_Forward = 0"
definition TagDirection_Reverse :: int where "TagDirection_Reverse = 1"
definition TagDirection_PingPong :: int where "TagDirection_PingPong = 2"
definition TagDirection_PingPongReverse :: int where "TagDirection_PingPongReverse = 3"

definition PropertyType_Null :: int where "PropertyType_Null = 0x0000"
definition PropertyType_Bool :: int where "PropertyType_Bool = 0x0001"
definition PropertyType_Int8 :: int where "PropertyType_Int8 = 0x0002"
definition PropertyType_Uint8 :: int where "PropertyType_Uint8 = 0x0003"
definition PropertyType_Int16 :: int where "PropertyType_Int16 = 0x0004"
definition PropertyType_Uint16 :: int where "PropertyType_Uint16 = 0x0005"
definition PropertyType_Int32 :: int where "PropertyType_Int32 = 0x0006"
definition PropertyType_Uint32 :: int where "PropertyType_Uint32 = 0x0007"
definition PropertyType_Int64 :: int where "PropertyType_Int64 = 0x0008"
definition PropertyType_Uint64 :: int where "PropertyType_Uint64 = 0x0009"
definition PropertyType_Fixed :: int where "PropertyType_Fixed = 0x000A"
definition PropertyType_Float :: int where "PropertyType_Float = 0x000B"
definition PropertyType_Double :: int where "PropertyType_Double = 0x000C"
definition PropertyType_String :: int where "PropertyType_String = 0x000D"
definition PropertyType_Point :: int where "PropertyType_Point = 0x000E"
definition PropertyType_Size :: int where "PropertyType_Size = 0x000F"
definition PropertyType_Rect :: int where "PropertyType_Rect = 0x0010"
definition PropertyType_Vector :: int where "PropertyType_Vector = 0x0011"
definition PropertyType_PropertiesMap :: int where "PropertyType_PropertiesMap = 0x0012"
definition PropertyType_UUID :: int where "PropertyType_UUID = 0x0013"

definition UserDataFlags_HasText :: int where "UserDataFlags_HasText = 1"
definition UserDataFlags_HasColor :: int where "UserDataFlags_HasColor = 2"
definition UserDataFlags_HasProperties :: int where "UserDataFlags_HasProperties = 4"

definition LayerType_Tilemap :: int where "LayerType_Tilemap = 2"
definition ColorProfileType_EmbeddedICC :: int where "ColorProfileType_EmbeddedICC = 2"

text \<open>
  Errors: \<open>AseFormatError\<close> with its code, or a plain JavaScript \<open>Error\<close>. Among the
  plain errors, \<open>DataViewRange\<close> and \<open>StackExhausted\<close> are the engine's RangeErrors: a
  DataView access out of range, and a call for which the call stack has no room left.
\<close>

datatype aseErrorCode =
  BAD_MAGIC | OUT_OF_BOUNDS | BAD_CHUNK_SIZE | UNSUPPORTED_COLOR_DEPTH | INVALID_CEL_TYPE
  | INVALID_LAYER_TYPE | DECOMPRESSION_FAILED | COMPRESSION_FAILED | INVALID_LINKED_CEL
  | MISSING_TILESET

datatype message =
  ReaderOutOfBounds int int
  | ReaderInvalidSeek int
  | UnknownCelType int
  | StringTooLong int
  | InvalidUuidLength
  | DataViewRange
  | StackExhausted

text \<open>
  \<open>Unmodelled\<close> is no error of the source: it marks an input on which the source relies
  on JavaScript's coercion of a value of another shape than its cast names, which this
  embedding does not describe.
\<close>

datatype error = AseFormatError aseErrorCode | Error message | Unmodelled

text \<open>User data and its property values (\<open>PropertyValue\<close>). A UUID is a string.\<close>

datatype propertyValue =
  PNull
  | PBool bool
  | PNumber real
  | PBigInt int
  | PString jsstring
  | PPoint int int
  | PSize int int
  | PRect int int int int
  | PVector "propertyValue list"
  | PMap "(jsstring \<times> propertyValue) list"
  | PUnknown int

type_synonym propertiesMap = "(jsstring \<times> (jsstring \<times> propertyValue) list) list"

record userData =
  ud_text :: "jsstring option"
  ud_color :: "(int \<times> int \<times> int \<times> int) option"
  ud_properties :: "propertiesMap option"

record aseHeader =
  fileSize :: int
  magic :: int
  frameCount :: int
  width :: int
  height :: int
  colorDepth :: int
  header_flags :: int
  speed :: int
  transparentIndex :: int
  colorCount :: int
  pixelWidth :: int
  pixelHeight :: int
  gridX :: int
  gridY :: int
  gridWidth :: int
  gridHeight :: int

record layer =
  layer_flags :: int
  layer_type :: int
  childLevel :: int
  defaultWidth :: int
  defaultHeight :: int
  blendMode :: int
  layer_opacity :: int
  layer_name :: jsstring
  tilesetIndex :: "int option"
  layer_userData :: "userData option"

datatype imageKind = KindRaw | KindZlib

record celImageData =
  img_kind :: imageKind
  img_bytes :: "byte list"
  img_decoded :: "byte list option"

record celExtra =
  extra_flags :: int
  preciseX :: real
  preciseY :: real
  celWidth :: real
  celHeight :: real

record celBase =
  layerIndex :: int
  cel_x :: int
  cel_y :: int
  cel_opacity :: int
  zIndex :: int
  cel_userData :: "userData option"
  cel_extra :: "celExtra option"

record tilemapMasks =
  tileIdMask :: int
  xFlipMask :: int
  yFlipMask :: int
  rotationMask :: int

text \<open>
  \<open>Cel\<close> is a union discriminated by its \<open>type\<close> field: one constructor per variant,
  each with the common fields, then the variant's own in the order of types.ts.
\<close>

datatype cel =
  RawImageCel celBase int int celImageData
  | LinkedCel celBase int
  | CompressedImageCel celBase int int celImageData
  | CompressedTilemapCel celBase int int int tilemapMasks celImageData

fun cel_base :: "cel \<Rightarrow> celBase" where
  "cel_base (RawImageCel b w h d) = b"
| "cel_base (LinkedCel b l) = b"
| "cel_base (CompressedImageCel b w h d) = b"
| "cel_base (CompressedTilemapCel b w h bits m d) = b"

fun cel_type :: "cel \<Rightarrow> int" where
  "cel_type (RawImageCel b w h d) = CelType_RawImage"
| "cel_type (LinkedCel b l) = CelType_Linked"
| "cel_type (CompressedImageCel b w h d) = CelType_CompressedImage"
| "cel_type (CompressedTilemapCel b w h bits m d) = CelType_CompressedTilemap"

fun map_cel_base :: "(celBase \<Rightarrow> celBase) \<Rightarrow> cel \<Rightarrow> cel" where
  "map_cel_base f (RawImageCel b w h d) = RawImageCel (f b) w h d"
| "map_cel_base f (LinkedCel b l) = LinkedCel (f b) l"
| "map_cel_base f (CompressedImageCel b w h d) = CompressedImageCel (f b) w h d"
| "map_cel_base f (CompressedTilemapCel b w h bits m d) = CompressedTilemapCel (f b) w h bits m d"

record paletteEntry =
  pe_r :: int
  pe_g :: int
  pe_b :: int
  pe_a :: int
  pe_name :: "jsstring option"

record palette =
  palette_size :: int
  firstIndex :: int
  lastIndex :: int
  entries :: "paletteEntry option list"

record tag =
  fromFrame :: int
  toFrame :: int
  direction :: int
  repeat :: int
  tag_color :: "int \<times> int \<times> int"
  tag_name :: jsstring
  tag_userData :: "userData option"

record sliceKey =
  frameIndex :: int
  key_x :: int
  key_y :: int
  key_width :: int
  key_height :: int
  center :: "(int \<times> int \<times> int \<times> int) option"
  pivot :: "(int \<times> int) option"

record slice =
  slice_name :: jsstring
  slice_flags :: int
  keys :: "sliceKey list"
  slice_userData :: "userData option"

record tileset =
  tileset_id :: int
  tileset_flags :: int
  tileCount :: int
  tileWidth :: int
  tileHeight :: int
  baseIndex :: int
  tileset_name :: jsstring
  externalFileId :: "int option"
  externalTilesetId :: "int option"
  compressedData :: "byte list option"
  decodedPixels :: "byte list option"
  tileset_userData :: "userData option"
  tileUserData :: "userData option list option"

record colorProfile =
  profile_type :: int
  profile_flags :: int
  gamma :: "real option"
  iccData :: "byte list option"

record externalFile =
  file_id :: int
  file_type :: int
  fileName :: jsstring

record oldPalettePacket =
  skipCount :: int
  colors :: "(int \<times> int \<times> int) list"

text \<open>
  A chunk as \<open>parseChunk\<close> returns it (\<open>Chunk\<close> of types.ts), the chunk's object inside.
\<close>

datatype parsedChunk =
  PLayerChunk layer
  | PCelChunk cel
  | PCelExtraChunk celExtra
  | PPaletteChunk palette
  | POldPaletteChunk int "oldPalettePacket list"
  | PTagsChunk "tag list"
  | PUserDataChunk userData
  | PSliceChunk slice
  | PTilesetChunk tileset
  | PColorProfileChunk colorProfile
  | PExternalFilesChunk "externalFile list"
  | PUnknownChunk int "byte list"

text \<open>
  A chunk of a frame's preserved chunk list. In the source the list holds the very objects
  that the file's \<open>layers\<close>, \<open>tags\<close>, \<open>slices\<close>, \<open>tilesets\<close> and the frame's
  \<open>cels\<close> hold, so user data attached later shows in both. Here such a chunk holds the
  object's position instead: \<open>LayerChunk i\<close> is the chunk of \<open>layers ! i\<close>,
  \<open>CelChunk i\<close> of the \<open>i\<close>-th cel of the same frame, \<open>TagsChunk i n\<close> of the
  \<open>n\<close> tags from position \<open>i\<close> on.
\<close>

datatype chunk =
  LayerChunk nat
  | CelChunk nat
  | CelExtraChunk celExtra
  | PaletteChunk palette
  | OldPaletteChunk int "oldPalettePacket list"
  | TagsChunk nat nat
  | UserDataChunk userData
  | SliceChunk nat
  | TilesetChunk nat
  | ColorProfileChunk colorProfile
  | ExternalFilesChunk "externalFile list"
  | UnknownChunk int "byte list"

record frame =
  durationMs :: int
  cels :: "cel list"
  chunks :: "chunk list option"

record asepriteFile =
  header :: aseHeader
  frames :: "frame list"
  layers :: "layer list"
  tags :: "tag list option"
  slices :: "slice list option"
  file_palette :: "palette option"
  tilesets :: "tileset list option"
  file_colorProfile :: "colorProfile option"
  externalFiles :: "externalFile list option"
  file_userData :: "userData option"
  unknownChunks :: "(int \<times> byte list) list option"

section \<open>Tag and slice utilities (util/tags.ts)\<close>

record tagFrameRange =
  range_name :: jsstring
  range_from :: int
  range_to :: int
  range_direction :: int
  range_repeat :: int
  range_frameCount :: int
  playbackOrder :: "int list"

text \<open>The four loop shapes of \<open>resolveTagFrameRange\<close>, each pushing \<open>i\<close> per round.\<close>

function pushUpTo :: "int \<Rightarrow> int \<Rightarrow> int list \<Rightarrow> int list" where
  "pushUpTo i to acc = (if i \<le> to then pushUpTo (i + 1) to (acc @ [i]) else acc)"
  by pat_completeness auto
termination
  by (relation "measure (\<lambda>(i, to, acc). nat (to + 1 - i))") auto

function pushDownTo :: "int \<Rightarrow> int \<Rightarrow> int list \<Rightarrow> int list" where
  "pushDownTo i from acc = (if i \<ge> from then pushDownTo (i - 1) from (acc @ [i]) else acc)"
  by pat_completeness auto
termination
  by (relation "measure (\<lambda>(i, from, acc). nat (i + 1 - from))") auto

function pushDownAbove :: "int \<Rightarrow> int \<Rightarrow> int list \<Rightarrow> int list" where
  "pushDownAbove i from acc = (if i > from then pushDownAbove (i - 1) from (acc @ [i]) else acc)"
  by pat_completeness auto
termination
  by (relation "measure (\<lambda>(i, from, acc). nat (i - from))") auto

function pushUpBelow :: "int \<Rightarrow> int \<Rightarrow> int list \<Rightarrow> int list" where
  "pushUpBelow i to acc = (if i < to then pushUpBelow (i + 1) to (acc @ [i]) else acc)"
  by pat_completeness auto
termination
  by (relation "measure (\<lambda>(i, to, acc). nat (to - i))") auto

declare pushUpTo.simps [simp del] pushDownTo.simps [simp del]
  pushDownAbove.simps [simp del] pushUpBelow.simps [simp del]

definition resolveTagFrameRange :: "tag \<Rightarrow> tagFrameRange" where
  "resolveTagFrameRange t =
     (let from = fromFrame t;
          to = toFrame t;
          frameCount = to - from + 1;
          order =
            (if direction t = TagDirection_Forward then pushUpTo from to []
             else if direction t = TagDirection_Reverse then pushDownTo to from []
             else if direction t = TagDirection_PingPong then
               pushDownAbove (to - 1) from (pushUpTo from to [])
             else if direction t = TagDirection_PingPongReverse then
               pushUpBelow (from + 1) to (pushDownTo to from [])
             else [])
      in \<lparr> range_name = tag_name t, range_from = from, range_to = to,
           range_direction = direction t, range_repeat = repeat t,
           range_frameCount = frameCount, playbackOrder = order \<rparr>)"

record resolvedSliceKey =
  rsk_name :: jsstring
  rsk_frameIndex :: int
  rsk_x :: int
  rsk_y :: int
  rsk_width :: int
  rsk_height :: int
  rsk_center :: "(int \<times> int \<times> int \<times> int) option"
  rsk_pivot :: "(int \<times> int) option"

text \<open>
  The loop of \<open>getSliceAtFrame\<close>: it keeps the last key seen and leaves the loop at the
  first key whose frame index is above the query.
\<close>

fun applicableKey :: "sliceKey list \<Rightarrow> int \<Rightarrow> sliceKey option \<Rightarrow> sliceKey option" where
  "applicableKey [] f acc = acc"
| "applicableKey (k # ks) f acc =
     (if frameIndex k \<le> f then applicableKey ks f (Some k) else acc)"

text \<open>
  \<open>getSliceAtFrame\<close>: no slices, no slice of the name, or a slice without keys give
  \<open>undefined\<close>; otherwise the loop's key, if any, is copied field by field into the result.
\<close>

definition getSliceAtFrame :: "asepriteFile \<Rightarrow> jsstring \<Rightarrow> int \<Rightarrow> resolvedSliceKey option" where
  "getSliceAtFrame file sliceName f =
     (case slices file of
        None \<Rightarrow> None
      | Some ss \<Rightarrow>
          (case find (\<lambda>s. slice_name s = sliceName) ss of
             None \<Rightarrow> None
           | Some s \<Rightarrow>
               if keys s = [] then None
               else
                 (case applicableKey (keys s) f None of
                    None \<Rightarrow> None
                  | Some k \<Rightarrow>
                      Some \<lparr> rsk_name = sliceName, rsk_frameIndex = frameIndex k,
                             rsk_x = key_x k, rsk_y = key_y k,
                             rsk_width = key_width k, rsk_height = key_height k,
                             rsk_center = center k, rsk_pivot = pivot k \<rparr>)))"

section \<open>Tile values (util/tile.ts)\<close>

text \<open>
  JavaScript's \<open>&\<close> and \<open>|\<close> convert both operands to 32-bit integers and give a
  signed 32-bit result.
\<close>

definition js_and :: "int \<Rightarrow> int \<Rightarrow> int" where
  "js_and a b = sint ((word_of_int a :: 32 word) AND word_of_int b)"

definition js_or :: "int \<Rightarrow> int \<Rightarrow> int" where
  "js_or a b = sint ((word_of_int a :: 32 word) OR word_of_int b)"

record decodedTile =
  tileId :: int
  xFlip :: bool
  yFlip :: bool
  rotation :: bool

definition decodeTileValue :: "int \<Rightarrow> tilemapMasks \<Rightarrow> decodedTile" where
  "decodeTileValue v masks =
     \<lparr> tileId = js_and v (tileIdMask masks),
       xFlip = (js_and v (xFlipMask masks) \<noteq> 0),
       yFlip = (js_and v (yFlipMask masks) \<noteq> 0),
       rotation = (js_and v (rotationMask masks) \<noteq> 0) \<rparr>"

definition encodeTileValue :: "decodedTile \<Rightarrow> tilemapMasks \<Rightarrow> int" where
  "encodeTileValue tile masks =
     (let v0 = js_and (tileId tile) (tileIdMask masks);
          v1 = (if xFlip tile then js_or v0 (xFlipMask masks) else v0);
          v2 = (if yFlip tile then js_or v1 (yFlipMask masks) else v1);
          v3 = (if rotation tile then js_or v2 (rotationMask masks) else v2)
      in v3)"

section \<open>Linked cels (util/decode.ts)\<close>

text \<open>
  \<open>resolveLinkedCel\<close> calls itself on the cel it finds, once for every link of the chain,
  and has no guard against a long or cyclic chain: each call takes a frame of the
  JavaScript call stack, and the call for which no room is left throws a RangeError. The
  first argument is the number of nested calls of \<open>resolveLinkedCel\<close> the stack has room
  for when the function is called; at 0 the call itself throws the RangeError
  (\<open>Error StackExhausted\<close>). \<open>Inl e\<close> is the error thrown, \<open>Inr c\<close> the cel returned.
\<close>

primrec resolveLinkedCel :: "nat \<Rightarrow> asepriteFile \<Rightarrow> cel \<Rightarrow> error + cel" where
  "resolveLinkedCel 0 file c = Inl (Error StackExhausted)"
| "resolveLinkedCel (Suc stack) file c =
     (case c of
        LinkedCel b linkedFrameIndex \<Rightarrow>
          if linkedFrameIndex < 0 \<or> linkedFrameIndex \<ge> int (length (frames file))
          then Inl (AseFormatError INVALID_LINKED_CEL)
          else
            (case find (\<lambda>c'. layerIndex (cel_base c') = layerIndex b)
                    (cels (frames file ! nat linkedFrameIndex)) of
               None \<Rightarrow> Inl (AseFormatError INVALID_LINKED_CEL)
             | Some linkedCel \<Rightarrow> resolveLinkedCel stack file linkedCel)
      | _ \<Rightarrow> Inr c)"

section \<open>JavaScript built-ins left open\<close>

text \<open>
  The source calls \<open>TextDecoder\<close>, \<open>TextEncoder\<close> and the \<open>DataView\<close> accessors for
  IEEE-754 floats. They are built-ins of the platform, not code of the repository; the
  embedding takes them as a parameter and every theorem holds whatever they compute.
\<close>

record platform =
  textDecode :: "byte list \<Rightarrow> jsstring"
  textEncode :: "jsstring \<Rightarrow> byte list"
  getFloat32 :: "byte list \<Rightarrow> real"
  getFloat64 :: "byte list \<Rightarrow> real"
  setFloat32 :: "real \<Rightarrow> byte list"
  setFloat64 :: "real \<Rightarrow> byte list"

section \<open>BinaryReader (binary/reader.ts)\<close>

text \<open>
  The reader is its buffer and its offset. A method of the source that reads and moves the
  offset is a function from the reader to the error thrown or the value and the new reader.
\<close>

record reader =
  r_data :: "byte list"
  r_offset :: int

type_synonym 'a rd = "reader \<Rightarrow> error + ('a \<times> reader)"

definition rret :: "'a \<Rightarrow> 'a rd" where
  "rret v = (\<lambda>r. Inr (v, r))"

definition rfail :: "error \<Rightarrow> 'a rd" where
  "rfail e = (\<lambda>r. Inl e)"

definition rbind :: "'a rd \<Rightarrow> ('a \<Rightarrow> 'b rd) \<Rightarrow> 'b rd" where
  "rbind m f = (\<lambda>r. case m r of Inl e \<Rightarrow> Inl e | Inr (v, r') \<Rightarrow> f v r')"

definition r_getOffset :: "int rd" where
  "r_getOffset = (\<lambda>r. Inr (r_offset r, r))"

definition r_length :: "int rd" where
  "r_length = (\<lambda>r. Inr (int (length (r_data r)), r))"

definition ensureBytes :: "int \<Rightarrow> unit rd" where
  "ensureBytes count = (\<lambda>r.
     if r_offset r + count > int (length (r_data r))
     then Inl (Error (ReaderOutOfBounds (r_offset r) count))
     else Inr ((), r))"

text \<open>The value of bytes read little-endian, unsigned and in two's complement.\<close>

fun le_value :: "byte list \<Rightarrow> int" where
  "le_value [] = 0"
| "le_value (b # bs) = uint b + 256 * le_value bs"

definition le_signed :: "byte list \<Rightarrow> int" where
  "le_signed bs =
     (let v = le_value bs; n = 8 * length bs
      in if n > 0 \<and> v \<ge> 2 ^ (n - 1) then v - 2 ^ n else v)"

text \<open>
  A \<open>DataView\<close> accessor at the reader's offset, after \<open>ensureBytes\<close>: it throws a
  RangeError of its own at a negative offset, and moves the offset by the width.
\<close>

definition viewGet :: "nat \<Rightarrow> (byte list) rd" where
  "viewGet n = rbind (ensureBytes (int n)) (\<lambda>_. \<lambda>r.
     if r_offset r < 0 then Inl (Error DataViewRange)
     else Inr (take n (drop (nat (r_offset r)) (r_data r)), r \<lparr> r_offset := r_offset r + int n \<rparr>))"

definition r_u8 :: "int rd" where "r_u8 = rbind (viewGet 1) (\<lambda>bs. rret (le_value bs))"
definition r_u16 :: "int rd" where "r_u16 = rbind (viewGet 2) (\<lambda>bs. rret (le_value bs))"
definition r_i16 :: "int rd" where "r_i16 = rbind (viewGet 2) (\<lambda>bs. rret (le_signed bs))"
definition r_u32 :: "int rd" where "r_u32 = rbind (viewGet 4) (\<lambda>bs. rret (le_value bs))"
definition r_i32 :: "int rd" where "r_i32 = rbind (viewGet 4) (\<lambda>bs. rret (le_signed bs))"
definition r_u64 :: "int rd" where "r_u64 = rbind (viewGet 8) (\<lambda>bs. rret (le_value bs))"
definition r_i64 :: "int rd" where "r_i64 = rbind (viewGet 8) (\<lambda>bs. rret (le_signed bs))"

definition r_fixed16_16 :: "real rd" where
  "r_fixed16_16 = rbind (viewGet 4) (\<lambda>bs. rret (real_of_int (le_signed bs) / 65536))"

definition r_f32 :: "platform \<Rightarrow> real rd" where
  "r_f32 pf = rbind (viewGet 4) (\<lambda>bs. rret (getFloat32 pf bs))"

definition r_f64 :: "platform \<Rightarrow> real rd" where
  "r_f64 pf = rbind (viewGet 8) (\<lambda>bs. rret (getFloat64 pf bs))"

text \<open>
  \<open>Uint8Array.subarray(begin, end)\<close>: a negative index counts from the end, both are
  clamped to the array, and an end before the begin gives the empty array.
\<close>

definition relIndex :: "int \<Rightarrow> int \<Rightarrow> int" where
  "relIndex len i = (if i < 0 then max (len + i) 0 else min i len)"

definition subarray :: "'a list \<Rightarrow> int \<Rightarrow> int \<Rightarrow> 'a list" where
  "subarray xs b e =
     (let len = int (length xs); b' = relIndex len b; e' = relIndex len e
      in take (nat (e' - b')) (drop (nat b') xs))"

text \<open>
  \<open>bytes(count)\<close>. The source checks only the upper bound, so a negative count passes
  \<open>ensureBytes\<close>, gives the empty array and moves the offset back.
\<close>

definition r_bytes :: "int \<Rightarrow> (byte list) rd" where
  "r_bytes count = rbind (ensureBytes count) (\<lambda>_. \<lambda>r.
     Inr (subarray (r_data r) (r_offset r) (r_offset r + count),
          r \<lparr> r_offset := r_offset r + count \<rparr>))"

definition r_string :: "platform \<Rightarrow> jsstring rd" where
  "r_string pf = rbind r_u16 (\<lambda>len.
     if len = 0 then rret []
     else rbind (r_bytes len) (\<lambda>bs. rret (textDecode pf bs)))"

definition hexDigit :: "nat \<Rightarrow> nat" where
  "hexDigit d = (if d < 10 then 48 + d else 87 + d)"

definition hex2 :: "byte \<Rightarrow> jsstring" where
  "hex2 b = [hexDigit (unat b div 16), hexDigit (unat b mod 16)]"

definition slice_str :: "jsstring \<Rightarrow> nat \<Rightarrow> nat \<Rightarrow> jsstring" where
  "slice_str s b e = take (e - b) (drop b s)"

definition r_uuid :: "jsstring rd" where
  "r_uuid = rbind (r_bytes 16) (\<lambda>bs.
     let hex = concat (map hex2 bs)
     in rret (slice_str hex 0 8 @ [45] @ slice_str hex 8 12 @ [45] @ slice_str hex 12 16
              @ [45] @ slice_str hex 16 20 @ [45] @ slice_str hex 20 32))"

definition r_skip :: "int \<Rightarrow> unit rd" where
  "r_skip count = rbind (ensureBytes count) (\<lambda>_. \<lambda>r.
     Inr ((), r \<lparr> r_offset := r_offset r + count \<rparr>))"

definition r_seek :: "int \<Rightarrow> unit rd" where
  "r_seek off = (\<lambda>r.
     if off < 0 \<or> off > int (length (r_data r)) then Inl (Error (ReaderInvalidSeek off))
     else Inr ((), r \<lparr> r_offset := off \<rparr>))"

text \<open>A \<open>for\<close> loop that runs its body \<open>n\<close> times and pushes each result.\<close>

primrec rloop :: "nat \<Rightarrow> 'a rd \<Rightarrow> ('a list) rd" where
  "rloop 0 body = rret []"
| "rloop (Suc n) body = rbind body (\<lambda>v. rbind (rloop n body) (\<lambda>vs. rret (v # vs)))"

section \<open>BinaryWriter (binary/writer.ts)\<close>

text \<open>
  The encoders only append, so the writer is the bytes written so far (what
  \<open>toUint8Array\<close> returns); its capacity cannot be observed. A \<open>DataView\<close> setter
  reduces an integer modulo the field's width, as \<open>word_of_int\<close> does.
\<close>

type_synonym writer = "byte list"

definition le_bytes :: "nat \<Rightarrow> int \<Rightarrow> byte list" where
  "le_bytes n v = map (\<lambda>i. word_of_int (v div 256 ^ i)) [0..<n]"

definition w_u8 :: "int \<Rightarrow> writer \<Rightarrow> writer" where "w_u8 v w = w @ le_bytes 1 v"
definition w_u16 :: "int \<Rightarrow> writer \<Rightarrow> writer" where "w_u16 v w = w @ le_bytes 2 v"
definition w_i16 :: "int \<Rightarrow> writer \<Rightarrow> writer" where "w_i16 v w = w @ le_bytes 2 v"
definition w_u32 :: "int \<Rightarrow> writer \<Rightarrow> writer" where "w_u32 v w = w @ le_bytes 4 v"
definition w_i32 :: "int \<Rightarrow> writer \<Rightarrow> writer" where "w_i32 v w = w @ le_bytes 4 v"
definition w_u64 :: "int \<Rightarrow> writer \<Rightarrow> writer" where "w_u64 v w = w @ le_bytes 8 v"
definition w_i64 :: "int \<Rightarrow> writer \<Rightarrow> writer" where "w_i64 v w = w @ le_bytes 8 v"

text \<open>A number that may hold a fraction is truncated towards zero by the integer setters.\<close>

definition js_trunc :: "real \<Rightarrow> int" where
  "js_trunc x = (if x \<ge> 0 then \<lfloor>x\<rfloor> else \<lceil>x\<rceil>)"

text \<open>\<open>Math.round\<close> rounds to the nearest integer, a half towards plus infinity.\<close>

definition js_round :: "real \<Rightarrow> int" where
  "js_round x = \<lfloor>x + 1 / 2\<rfloor>"

definition w_fixed16_16 :: "real \<Rightarrow> writer \<Rightarrow> writer" where
  "w_fixed16_16 x w = w @ le_bytes 4 (js_round (x * 65536))"

definition fixLen :: "nat \<Rightarrow> byte list \<Rightarrow> byte list" where
  "fixLen n bs = take n (bs @ replicate n 0)"

definition w_f32 :: "platform \<Rightarrow> real \<Rightarrow> writer \<Rightarrow> writer" where
  "w_f32 pf x w = w @ fixLen 4 (setFloat32 pf x)"

definition w_f64 :: "platform \<Rightarrow> real \<Rightarrow> writer \<Rightarrow> writer" where
  "w_f64 pf x w = w @ fixLen 8 (setFloat64 pf x)"

definition w_bytes :: "byte list \<Rightarrow> writer \<Rightarrow> writer" where
  "w_bytes bs w = w @ bs"

definition w_zeros :: "nat \<Rightarrow> writer \<Rightarrow> writer" where
  "w_zeros n w = w @ replicate n 0"

definition w_string :: "platform \<Rightarrow> jsstring \<Rightarrow> writer \<Rightarrow> error + writer" where
  "w_string pf s w =
     (let encoded = textEncode pf s
      in if length encoded > 0xFFFF then Inl (Error (StringTooLong (int (length encoded))))
         else Inr (w_bytes encoded (w_u16 (int (length encoded)) w)))"

text \<open>
  \<open>parseInt(s, radix)\<close> for the radixes the source uses, 10 and 16: leading white space, a
  sign, for radix 16 an optional \<open>0x\<close>, then the longest run of digits; \<open>None\<close> is NaN.
  The result is exact here (the source's is a double, exact below \<open>2^53\<close>).
\<close>

definition isWhiteSpace :: "nat \<Rightarrow> bool" where
  "isWhiteSpace c = (c \<in> {9, 10, 11, 12, 13, 32, 160, 0x1680, 0x2028, 0x2029, 0x202F, 0x205F,
     0x3000, 0xFEFF} \<or> (0x2000 \<le> c \<and> c \<le> 0x200A))"

definition digitValue :: "nat \<Rightarrow> nat option" where
  "digitValue c =
     (if 48 \<le> c \<and> c \<le> 57 then Some (c - 48)
      else if 97 \<le> c \<and> c \<le> 122 then Some (c - 87)
      else if 65 \<le> c \<and> c \<le> 90 then Some (c - 55)
      else None)"

definition isDigitOf :: "nat \<Rightarrow> nat \<Rightarrow> bool" where
  "isDigitOf radix c = (case digitValue c of None \<Rightarrow> False | Some d \<Rightarrow> d < radix)"

definition parseInt :: "jsstring \<Rightarrow> nat \<Rightarrow> int option" where
  "parseInt s radix =
     (let s1 = dropWhile isWhiteSpace s;
          sign = (case s1 of c # _ \<Rightarrow> if c = 45 then - 1 else (1 :: int) | [] \<Rightarrow> 1);
          s2 = (case s1 of c # t \<Rightarrow> if c = 45 \<or> c = 43 then t else s1 | [] \<Rightarrow> s1);
          s3 = (if radix = 16 \<and> (take 2 s2 = [48, 120] \<or> take 2 s2 = [48, 88])
                then drop 2 s2 else s2);
          ds = takeWhile (isDigitOf radix) s3
      in if ds = [] then None
         else Some (sign * foldl (\<lambda>a c. a * int radix + int (the (digitValue c))) 0 ds))"

text \<open>
  \<open>uuid(value)\<close>: the dashes are dropped, 32 characters must remain, and each pair is
  parsed as hexadecimal into a byte (NaN is stored as 0).
\<close>

definition w_uuid :: "jsstring \<Rightarrow> writer \<Rightarrow> error + writer" where
  "w_uuid s w =
     (let hex = filter (\<lambda>c. c \<noteq> 45) s
      in if length hex \<noteq> 32 then Inl (Error InvalidUuidLength)
         else Inr (w_bytes
                (map (\<lambda>i. case parseInt (slice_str hex (i * 2) (i * 2 + 2)) 16 of
                             None \<Rightarrow> 0 | Some v \<Rightarrow> word_of_int v) [0..<16]) w))"

definition wbind :: "error + writer \<Rightarrow> (writer \<Rightarrow> error + writer) \<Rightarrow> error + writer" where
  "wbind m f = (case m of Inl e \<Rightarrow> Inl e | Inr w \<Rightarrow> f w)"

section \<open>Chunk parsers (chunks/*.ts)\<close>

text \<open>A flag test \<open>flags & mask\<close>, taken for its truth.\<close>

definition hasFlag :: "int \<Rightarrow> int \<Rightarrow> bool" where
  "hasFlag fl m = (js_and fl m \<noteq> 0)"

definition parseLayerChunk :: "platform \<Rightarrow> layer rd" where
  "parseLayerChunk pf =
     rbind r_u16 (\<lambda>fl.
     rbind r_u16 (\<lambda>ty.
     rbind r_u16 (\<lambda>lvl.
     rbind r_u16 (\<lambda>dw.
     rbind r_u16 (\<lambda>dh.
     rbind r_u16 (\<lambda>bm.
     rbind r_u8 (\<lambda>op.
     rbind (r_skip 3) (\<lambda>_.
     rbind (r_string pf) (\<lambda>nm.
     rbind (if ty = LayerType_Tilemap then rbind r_u32 (\<lambda>ti. rret (Some ti)) else rret None)
       (\<lambda>ti.
     rret \<lparr> layer_flags = fl, layer_type = ty, childLevel = lvl, defaultWidth = dw,
            defaultHeight = dh, blendMode = bm, layer_opacity = op, layer_name = nm,
            tilesetIndex = ti, layer_userData = None \<rparr>))))))))))"

text \<open>
  \<open>parseCelChunk\<close>. The payload of an image runs to the end of the chunk. An unknown
  variant tag throws a plain \<open>Error\<close>.
\<close>

definition parseCelChunk :: "int \<Rightarrow> cel rd" where
  "parseCelChunk chunkEndOffset =
     rbind r_u16 (\<lambda>li.
     rbind r_i16 (\<lambda>x.
     rbind r_i16 (\<lambda>y.
     rbind r_u8 (\<lambda>op.
     rbind r_u16 (\<lambda>celType.
     rbind r_i16 (\<lambda>z.
     rbind (r_skip 5) (\<lambda>_.
     let base = \<lparr> layerIndex = li, cel_x = x, cel_y = y, cel_opacity = op, zIndex = z,
                   cel_userData = None, cel_extra = None \<rparr>
     in
       if celType = CelType_RawImage then
         rbind r_u16 (\<lambda>w.
         rbind r_u16 (\<lambda>h.
         rbind r_getOffset (\<lambda>off.
         rbind (r_bytes (chunkEndOffset - off)) (\<lambda>bs.
         rret (RawImageCel base w h
                 \<lparr> img_kind = KindRaw, img_bytes = bs, img_decoded = None \<rparr>)))))
       else if celType = CelType_Linked then
         rbind r_u16 (\<lambda>lf. rret (LinkedCel base lf))
       else if celType = CelType_CompressedImage then
         rbind r_u16 (\<lambda>w.
         rbind r_u16 (\<lambda>h.
         rbind r_getOffset (\<lambda>off.
         rbind (r_bytes (chunkEndOffset - off)) (\<lambda>bs.
         rret (CompressedImageCel base w h
                 \<lparr> img_kind = KindZlib, img_bytes = bs, img_decoded = None \<rparr>)))))
       else if celType = CelType_CompressedTilemap then
         rbind r_u16 (\<lambda>w.
         rbind r_u16 (\<lambda>h.
         rbind r_u16 (\<lambda>bits.
         rbind r_u32 (\<lambda>tm.
         rbind r_u32 (\<lambda>xm.
         rbind r_u32 (\<lambda>ym.
         rbind r_u32 (\<lambda>rm.
         rbind (r_skip 10) (\<lambda>_.
         rbind r_getOffset (\<lambda>off.
         rbind (r_bytes (chunkEndOffset - off)) (\<lambda>bs.
         rret (CompressedTilemapCel base w h bits
                 \<lparr> tileIdMask = tm, xFlipMask = xm, yFlipMask = ym, rotationMask = rm \<rparr>
                 \<lparr> img_kind = KindZlib, img_bytes = bs, img_decoded = None \<rparr>)))))))))))
       else rfail (Error (UnknownCelType celType)))))))))"

definition parseCelExtraChunk :: "celExtra rd" where
  "parseCelExtraChunk =
     rbind r_u32 (\<lambda>fl.
     rbind r_fixed16_16 (\<lambda>px.
     rbind r_fixed16_16 (\<lambda>py.
     rbind r_fixed16_16 (\<lambda>cw.
     rbind r_fixed16_16 (\<lambda>ch.
     rret \<lparr> extra_flags = fl, preciseX = px, preciseY = py, celWidth = cw, celHeight = ch \<rparr>)))))"

definition parsePaletteChunk :: "platform \<Rightarrow> palette rd" where
  "parsePaletteChunk pf =
     rbind r_u32 (\<lambda>sz.
     rbind r_u32 (\<lambda>first.
     rbind r_u32 (\<lambda>last.
     rbind (r_skip 8) (\<lambda>_.
     rbind (rloop (nat (last - first + 1))
       (rbind r_u16 (\<lambda>entryFlags.
        rbind r_u8 (\<lambda>r.
        rbind r_u8 (\<lambda>g.
        rbind r_u8 (\<lambda>b.
        rbind r_u8 (\<lambda>a.
        rbind (if hasFlag entryFlags 1 then rbind (r_string pf) (\<lambda>nm. rret (Some nm))
               else rret None) (\<lambda>nm.
        rret (Some \<lparr> pe_r = r, pe_g = g, pe_b = b, pe_a = a, pe_name = nm \<rparr>)))))))))
       (\<lambda>es.
     rret \<lparr> palette_size = sz, firstIndex = first, lastIndex = last, entries = es \<rparr>)))))"

definition parseOldPaletteChunk :: "(oldPalettePacket list) rd" where
  "parseOldPaletteChunk =
     rbind r_u16 (\<lambda>packetCount.
     rloop (nat packetCount)
       (rbind r_u8 (\<lambda>skip.
        rbind r_u8 (\<lambda>cc.
        rbind (rloop (nat (if cc = 0 then 256 else cc))
          (rbind r_u8 (\<lambda>r.
           rbind r_u8 (\<lambda>g.
           rbind r_u8 (\<lambda>b.
           rret (r, g, b)))))) (\<lambda>cs.
        rret \<lparr> skipCount = skip, colors = cs \<rparr>)))))"

definition parseTagsChunk :: "platform \<Rightarrow> (tag list) rd" where
  "parseTagsChunk pf =
     rbind r_u16 (\<lambda>tagCount.
     rbind (r_skip 8) (\<lambda>_.
     rloop (nat tagCount)
       (rbind r_u16 (\<lambda>fromF.
        rbind r_u16 (\<lambda>toF.
        rbind r_u8 (\<lambda>dir.
        rbind r_u16 (\<lambda>rep.
        rbind (r_skip 6) (\<lambda>_.
        rbind r_u8 (\<lambda>r.
        rbind r_u8 (\<lambda>g.
        rbind r_u8 (\<lambda>b.
        rbind (r_skip 1) (\<lambda>_.
        rbind (r_string pf) (\<lambda>nm.
        rret \<lparr> fromFrame = fromF, toFrame = toF, direction = dir, repeat = rep,
               tag_color = (r, g, b), tag_name = nm, tag_userData = None \<rparr>)))))))))))))"

text \<open>The decimal digits of a number, as a template literal writes it.\<close>

function decimal :: "nat \<Rightarrow> jsstring" where
  "decimal n = (if n < 10 then [48 + n] else decimal (n div 10) @ [48 + n mod 10])"
  by pat_completeness auto
termination
  by (relation "measure id") auto

declare decimal.simps [simp del]

text \<open>
  \<open>parsePropertyValue\<close> calls itself for the elements of a vector and the values of a
  nested map. The first argument bounds the depth of these calls; at depth 0 the result
  is \<open>StackExhausted\<close>, as JavaScript throws a RangeError when its stack is exhausted.
  An unknown type tag reads nothing and gives the placeholder.
\<close>

primrec parsePropertyValue :: "nat \<Rightarrow> platform \<Rightarrow> int \<Rightarrow> propertyValue rd" where
  "parsePropertyValue 0 = (\<lambda>pf propType. rfail (Error StackExhausted))"
| "parsePropertyValue (Suc depth) = (\<lambda>pf propType.
     if propType = PropertyType_Null then rret PNull
     else if propType = PropertyType_Bool then rbind r_u8 (\<lambda>v. rret (PBool (v \<noteq> 0)))
     else if propType = PropertyType_Int8 then
       rbind r_u8 (\<lambda>v. rret (PNumber (real_of_int (v - 128))))
     else if propType = PropertyType_Uint8 then rbind r_u8 (\<lambda>v. rret (PNumber (real_of_int v)))
     else if propType = PropertyType_Int16 then rbind r_i16 (\<lambda>v. rret (PNumber (real_of_int v)))
     else if propType = PropertyType_Uint16 then rbind r_u16 (\<lambda>v. rret (PNumber (real_of_int v)))
     else if propType = PropertyType_Int32 then rbind r_i32 (\<lambda>v. rret (PNumber (real_of_int v)))
     else if propType = PropertyType_Uint32 then rbind r_u32 (\<lambda>v. rret (PNumber (real_of_int v)))
     else if propType = PropertyType_Int64 then rbind r_i64 (\<lambda>v. rret (PBigInt v))
     else if propType = PropertyType_Uint64 then rbind r_u64 (\<lambda>v. rret (PBigInt v))
     else if propType = PropertyType_Fixed then rbind r_fixed16_16 (\<lambda>v. rret (PNumber v))
     else if propType = PropertyType_Float then rbind (r_f32 pf) (\<lambda>v. rret (PNumber v))
     else if propType = PropertyType_Double then rbind (r_f64 pf) (\<lambda>v. rret (PNumber v))
     else if propType = PropertyType_String then rbind (r_string pf) (\<lambda>s. rret (PString s))
     else if propType = PropertyType_Point then
       rbind r_i32 (\<lambda>x. rbind r_i32 (\<lambda>y. rret (PPoint x y)))
     else if propType = PropertyType_Size then
       rbind r_i32 (\<lambda>w. rbind r_i32 (\<lambda>h. rret (PSize w h)))
     else if propType = PropertyType_Rect then
       rbind r_i32 (\<lambda>x. rbind r_i32 (\<lambda>y. rbind r_i32 (\<lambda>w. rbind r_i32 (\<lambda>h.
         rret (PRect x y w h)))))
     else if propType = PropertyType_Vector then
       rbind r_u32 (\<lambda>elementCount.
       rbind r_u16 (\<lambda>elementType.
       rbind (rloop (nat elementCount) (parsePropertyValue depth pf elementType)) (\<lambda>elements.
       rret (PVector elements))))
     else if propType = PropertyType_PropertiesMap then
       rbind r_u32 (\<lambda>mapSize.
       rbind (rloop (nat mapSize)
         (rbind (r_string pf) (\<lambda>k.
          rbind r_u16 (\<lambda>valueType.
          rbind (parsePropertyValue depth pf valueType) (\<lambda>v.
          rret (k, v)))))) (\<lambda>kvs.
       rret (PMap (foldl (\<lambda>m (k, v). AList.update k v m) [] kvs))))
     else if propType = PropertyType_UUID then rbind r_uuid (\<lambda>s. rret (PString s))
     else rret (PUnknown propType))"

text \<open>
  The depth given to \<open>parsePropertyValue\<close> at a property: the length of the buffer. Each
  nested vector or map takes at least six bytes of it before its first element.
\<close>

definition propertyDepth :: "nat rd" where
  "propertyDepth = (\<lambda>r. Inr (Suc (length (r_data r)), r))"

definition parsePropertiesMap :: "platform \<Rightarrow> propertiesMap rd" where
  "parsePropertiesMap pf =
     rbind r_u32 (\<lambda>propertiesMapSize.
     rbind (rloop (nat propertiesMapSize)
       (rbind r_u32 (\<lambda>extensionId.
        rbind r_u32 (\<lambda>propertyCount.
        rbind (rloop (nat propertyCount)
          (rbind (r_string pf) (\<lambda>propertyName.
           rbind r_u16 (\<lambda>propertyType.
           rbind propertyDepth (\<lambda>depth.
           rbind (parsePropertyValue depth pf propertyType) (\<lambda>propertyValue.
           rret (propertyName, propertyValue))))))) (\<lambda>props.
        rret (lit ''ext_'' @ decimal (nat extensionId),
              foldl (\<lambda>m (k, v). AList.update k v m) [] props)))))) (\<lambda>exts.
     rret (foldl (\<lambda>m (k, v). AList.update k v m) [] exts)))"

definition parseUserDataChunk :: "platform \<Rightarrow> userData rd" where
  "parseUserDataChunk pf =
     rbind r_u32 (\<lambda>fl.
     rbind (if hasFlag fl UserDataFlags_HasText
            then rbind (r_string pf) (\<lambda>s. rret (Some s)) else rret None) (\<lambda>txt.
     rbind (if hasFlag fl UserDataFlags_HasColor
            then rbind r_u8 (\<lambda>r. rbind r_u8 (\<lambda>g. rbind r_u8 (\<lambda>b. rbind r_u8 (\<lambda>a.
                   rret (Some (r, g, b, a))))))
            else rret None) (\<lambda>col.
     rbind (if hasFlag fl UserDataFlags_HasProperties
            then rbind (parsePropertiesMap pf) (\<lambda>p. rret (Some p)) else rret None) (\<lambda>props.
     rret \<lparr> ud_text = txt, ud_color = col, ud_properties = props \<rparr>))))"

definition parseSliceChunk :: "platform \<Rightarrow> slice rd" where
  "parseSliceChunk pf =
     rbind r_u32 (\<lambda>keyCount.
     rbind r_u32 (\<lambda>fl.
     rbind (r_skip 4) (\<lambda>_.
     rbind (r_string pf) (\<lambda>nm.
     rbind (rloop (nat keyCount)
       (rbind r_u32 (\<lambda>fi.
        rbind r_i32 (\<lambda>x.
        rbind r_i32 (\<lambda>y.
        rbind r_u32 (\<lambda>w.
        rbind r_u32 (\<lambda>h.
        rbind (if hasFlag fl 1
               then rbind r_i32 (\<lambda>cx. rbind r_i32 (\<lambda>cy. rbind r_u32 (\<lambda>cw. rbind r_u32 (\<lambda>ch.
                      rret (Some (cx, cy, cw, ch))))))
               else rret None) (\<lambda>cen.
        rbind (if hasFlag fl 2
               then rbind r_i32 (\<lambda>px. rbind r_i32 (\<lambda>py. rret (Some (px, py))))
               else rret None) (\<lambda>piv.
        rret \<lparr> frameIndex = fi, key_x = x, key_y = y, key_width = w, key_height = h,
               center = cen, pivot = piv \<rparr>))))))))) (\<lambda>ks.
     rret \<lparr> slice_name = nm, slice_flags = fl, keys = ks, slice_userData = None \<rparr>)))))"

definition parseTilesetChunk :: "platform \<Rightarrow> tileset rd" where
  "parseTilesetChunk pf =
     rbind r_u32 (\<lambda>tid.
     rbind r_u32 (\<lambda>fl.
     rbind r_u32 (\<lambda>cnt.
     rbind r_u16 (\<lambda>tw.
     rbind r_u16 (\<lambda>th.
     rbind r_i16 (\<lambda>bi.
     rbind (r_skip 14) (\<lambda>_.
     rbind (r_string pf) (\<lambda>nm.
     rbind (if hasFlag fl 1
            then rbind r_u32 (\<lambda>ef. rbind r_u32 (\<lambda>et. rret (Some ef, Some et)))
            else rret (None, None)) (\<lambda>(ef, et).
     rbind (if hasFlag fl 2
            then rbind r_u32 (\<lambda>compressedLength.
                 rbind (r_bytes compressedLength) (\<lambda>bs. rret (Some bs)))
            else rret None) (\<lambda>cd.
     rret \<lparr> tileset_id = tid, tileset_flags = fl, tileCount = cnt, tileWidth = tw,
            tileHeight = th, baseIndex = bi, tileset_name = nm, externalFileId = ef,
            externalTilesetId = et, compressedData = cd, decodedPixels = None,
            tileset_userData = None, tileUserData = None \<rparr>))))))))))"

definition parseColorProfileChunk :: "colorProfile rd" where
  "parseColorProfileChunk =
     rbind r_u16 (\<lambda>ty.
     rbind r_u16 (\<lambda>fl.
     rbind r_fixed16_16 (\<lambda>gammaRaw.
     rbind (r_skip 8) (\<lambda>_.
     rbind (if ty = ColorProfileType_EmbeddedICC
            then rbind r_u32 (\<lambda>iccLength. rbind (r_bytes iccLength) (\<lambda>bs. rret (Some bs)))
            else rret None) (\<lambda>icc.
     rret \<lparr> profile_type = ty, profile_flags = fl,
            gamma = (if hasFlag fl 1 then Some gammaRaw else None), iccData = icc \<rparr>)))))"

definition parseExternalFilesChunk :: "platform \<Rightarrow> (externalFile list) rd" where
  "parseExternalFilesChunk pf =
     rbind r_u32 (\<lambda>entryCount.
     rbind (r_skip 8) (\<lambda>_.
     rloop (nat entryCount)
       (rbind r_u32 (\<lambda>fid.
        rbind r_u8 (\<lambda>ty.
        rbind (r_skip 7) (\<lambda>_.
        rbind (r_string pf) (\<lambda>nm.
        rret \<lparr> file_id = fid, file_type = ty, fileName = nm \<rparr>)))))))"

section \<open>The parser (parse.ts)\<close>

definition ChunkType_OldPalette1 :: int where "ChunkType_OldPalette1 = 0x0004"
definition ChunkType_OldPalette2 :: int where "ChunkType_OldPalette2 = 0x0011"
definition ChunkType_Layer :: int where "ChunkType_Layer = 0x2004"
definition ChunkType_Cel :: int where "ChunkType_Cel = 0x2005"
definition ChunkType_CelExtra :: int where "ChunkType_CelExtra = 0x2006"
definition ChunkType_ColorProfile :: int where "ChunkType_ColorProfile = 0x2007"
definition ChunkType_ExternalFiles :: int where "ChunkType_ExternalFiles = 0x2008"
definition ChunkType_Mask :: int where "ChunkType_Mask = 0x2016"
definition ChunkType_Path :: int where "ChunkType_Path = 0x2017"
definition ChunkType_Tags :: int where "ChunkType_Tags = 0x2018"
definition ChunkType_Palette :: int where "ChunkType_Palette = 0x2019"
definition ChunkType_UserData :: int where "ChunkType_UserData = 0x2020"
definition ChunkType_Slice :: int where "ChunkType_Slice = 0x2022"
definition ChunkType_Tileset :: int where "ChunkType_Tileset = 0x2023"

text \<open>\<open>Object.values(ChunkType)\<close>.\<close>

definition chunkTypeValues :: "int list" where
  "chunkTypeValues =
     [ChunkType_OldPalette1, ChunkType_OldPalette2, ChunkType_Layer, ChunkType_Cel,
      ChunkType_CelExtra, ChunkType_ColorProfile, ChunkType_ExternalFiles, ChunkType_Mask,
      ChunkType_Path, ChunkType_Tags, ChunkType_Palette, ChunkType_UserData,
      ChunkType_Slice, ChunkType_Tileset]"

datatype decodeImagesMode = DecodeFalse | DecodeMetadata | DecodePixels

text \<open>\<open>ParseOptions\<close>: \<open>None\<close> is a key left out, which takes the default.\<close>

record parseOptions =
  preserveChunks :: "bool option"
  preserveCompressed :: "bool option"
  decodeImages :: "decodeImagesMode option"
  strict :: "bool option"

record requiredParseOptions =
  opt_preserveChunks :: bool
  opt_preserveCompressed :: bool
  opt_decodeImages :: decodeImagesMode
  opt_strict :: bool

definition DEFAULT_OPTIONS :: requiredParseOptions where
  "DEFAULT_OPTIONS = \<lparr> opt_preserveChunks = True, opt_preserveCompressed = True,
     opt_decodeImages = DecodeFalse, opt_strict = True \<rparr>"

definition mergeOptions :: "parseOptions option \<Rightarrow> requiredParseOptions" where
  "mergeOptions opts =
     (case opts of
        None \<Rightarrow> DEFAULT_OPTIONS
      | Some os \<Rightarrow>
          \<lparr> opt_preserveChunks =
              (case preserveChunks os of None \<Rightarrow> opt_preserveChunks DEFAULT_OPTIONS | Some b \<Rightarrow> b),
            opt_preserveCompressed =
              (case preserveCompressed os of None \<Rightarrow> opt_preserveCompressed DEFAULT_OPTIONS
               | Some b \<Rightarrow> b),
            opt_decodeImages =
              (case decodeImages os of None \<Rightarrow> opt_decodeImages DEFAULT_OPTIONS | Some d \<Rightarrow> d),
            opt_strict = (case strict os of None \<Rightarrow> opt_strict DEFAULT_OPTIONS | Some b \<Rightarrow> b) \<rparr>)"

text \<open>
  \<open>ParseContext\<close>. The source's context holds references to the objects that user data
  may attach to; here it holds their positions: \<open>TLayer i\<close> is \<open>layers[i]\<close>,
  \<open>TCel f i\<close> the \<open>i\<close>-th cel of frame \<open>f\<close>, and the pending tags are an offset into
  \<open>tags\<close> and a count. The kind \<open>sprite\<close> of the source's type is \<open>TSprite\<close>.
\<close>

datatype attachTarget = TLayer nat | TCel nat nat | TSlice nat | TTileset nat | TSprite

datatype tilesetPhase = PhaseTileset | PhaseTiles

record pendingTileset =
  pt_tileset :: nat
  pt_phase :: tilesetPhase
  pt_tileIndex :: nat

record parseContext =
  lastAttachTarget :: "attachTarget option"
  pendingTagUserData :: "(nat \<times> nat) option"
  pendingTagUserDataIndex :: nat
  pendingTilesetUserData :: "pendingTileset option"
  ctx_frameIndex :: nat
  lastCel :: "nat option"

text \<open>
  The local variables of \<open>parseAseprite\<close> together with the context: the lists the
  chunks are collected in, and the cels and chunks of the frame being read.
\<close>

record parseState =
  ctx :: parseContext
  st_frames :: "frame list"
  st_layers :: "layer list"
  st_tags :: "tag list"
  st_slices :: "slice list"
  st_tilesets :: "tileset list"
  st_unknownChunks :: "(int \<times> byte list) list"
  st_oldPaletteChunks :: "(int \<times> oldPalettePacket list) list"
  st_palette :: "palette option"
  st_colorProfile :: "colorProfile option"
  st_externalFiles :: "externalFile list option"
  st_spriteUserData :: "userData option"
  st_cels :: "cel list"
  st_chunks :: "chunk list"

definition initialState :: parseState where
  "initialState =
     \<lparr> ctx = \<lparr> lastAttachTarget = None, pendingTagUserData = None,
               pendingTagUserDataIndex = 0, pendingTilesetUserData = None,
               ctx_frameIndex = 0, lastCel = None \<rparr>,
       st_frames = [], st_layers = [], st_tags = [], st_slices = [], st_tilesets = [],
       st_unknownChunks = [], st_oldPaletteChunks = [], st_palette = None,
       st_colorProfile = None, st_externalFiles = None, st_spriteUserData = None,
       st_cels = [], st_chunks = [] \<rparr>"

definition parseHeader :: "bool \<Rightarrow> aseHeader rd" where
  "parseHeader strictMode =
     rbind r_u32 (\<lambda>fsz.
     rbind r_u16 (\<lambda>mg.
     if strictMode \<and> mg \<noteq> ASE_FILE_MAGIC then rfail (AseFormatError BAD_MAGIC)
     else
     rbind r_u16 (\<lambda>fc.
     rbind r_u16 (\<lambda>w.
     rbind r_u16 (\<lambda>h.
     rbind r_u16 (\<lambda>cd.
     if strictMode \<and> cd \<notin> {8, 16, 32} then rfail (AseFormatError UNSUPPORTED_COLOR_DEPTH)
     else
     rbind r_u32 (\<lambda>fl.
     rbind r_u16 (\<lambda>sp.
     rbind (r_skip 4) (\<lambda>_.
     rbind (r_skip 4) (\<lambda>_.
     rbind r_u8 (\<lambda>ti.
     rbind (r_skip 3) (\<lambda>_.
     rbind r_u16 (\<lambda>cc.
     rbind r_u8 (\<lambda>pw.
     rbind r_u8 (\<lambda>ph.
     rbind r_i16 (\<lambda>gx.
     rbind r_i16 (\<lambda>gy.
     rbind r_u16 (\<lambda>gw.
     rbind r_u16 (\<lambda>gh.
     rbind (r_skip 84) (\<lambda>_.
     rret \<lparr> fileSize = fsz, magic = mg, frameCount = fc, width = w, height = h,
            colorDepth = cd, header_flags = fl, speed = sp, transparentIndex = ti,
            colorCount = cc, pixelWidth = pw, pixelHeight = ph, gridX = gx, gridY = gy,
            gridWidth = gw, gridHeight = gh \<rparr>))))))))))))))))))))"

text \<open>Updates of the object a position stands for.\<close>

definition mapAt :: "nat \<Rightarrow> ('a \<Rightarrow> 'a) \<Rightarrow> 'a list \<Rightarrow> 'a list" where
  "mapAt i f xs = (if i < length xs then xs[i := f (xs ! i)] else xs)"

definition updCtx :: "(parseContext \<Rightarrow> parseContext) \<Rightarrow> parseState \<Rightarrow> parseState" where
  "updCtx f st = st \<lparr> ctx := f (ctx st) \<rparr>"

text \<open>A cel of an earlier frame is in \<open>frames\<close>, one of the frame being read in \<open>cels\<close>.\<close>

definition updCel :: "nat \<Rightarrow> nat \<Rightarrow> (celBase \<Rightarrow> celBase) \<Rightarrow> parseState \<Rightarrow> parseState" where
  "updCel f i g st =
     (if f < length (st_frames st)
      then st \<lparr> st_frames := mapAt f (\<lambda>fr. fr \<lparr> cels := mapAt i (map_cel_base g) (cels fr) \<rparr>)
                                (st_frames st) \<rparr>
      else st \<lparr> st_cels := mapAt i (map_cel_base g) (st_cels st) \<rparr>)"

text \<open>\<open>array[i] = v\<close>: beyond the end the array grows, with holes before \<open>i\<close>.\<close>

definition arraySet :: "'a option list \<Rightarrow> nat \<Rightarrow> 'a \<Rightarrow> 'a option list" where
  "arraySet xs i v =
     (if i < length xs then xs[i := Some v]
      else xs @ replicate (i - length xs) None @ [Some v])"

text \<open>
  The UserData case of \<open>parseChunk\<close>: the first of the pending tags, the pending
  tileset and the last attach target that applies. The target \<open>sprite\<close> attaches nothing
  here.
\<close>

definition attachUserData :: "userData \<Rightarrow> parseState \<Rightarrow> parseState" where
  "attachUserData ud st =
     (let c = ctx st in
      if (case pendingTagUserData c of
            None \<Rightarrow> False | Some (start, n) \<Rightarrow> pendingTagUserDataIndex c < n)
      then
        (case pendingTagUserData c of
           Some (start, n) \<Rightarrow>
             updCtx (\<lambda>c. c \<lparr> pendingTagUserDataIndex := pendingTagUserDataIndex c + 1 \<rparr>)
               (st \<lparr> st_tags := mapAt (start + pendingTagUserDataIndex c)
                                  (\<lambda>t. t \<lparr> tag_userData := Some ud \<rparr>) (st_tags st) \<rparr>)
         | None \<Rightarrow> st)
      else
        (case pendingTilesetUserData c of
           Some pt \<Rightarrow>
             if pt_phase pt = PhaseTileset then
               updCtx (\<lambda>c. c \<lparr> pendingTilesetUserData :=
                                  Some (pt \<lparr> pt_phase := PhaseTiles, pt_tileIndex := 0 \<rparr>) \<rparr>)
                 (st \<lparr> st_tilesets := mapAt (pt_tileset pt)
                                         (\<lambda>t. t \<lparr> tileset_userData := Some ud \<rparr>)
                                         (st_tilesets st) \<rparr>)
             else
               updCtx (\<lambda>c. c \<lparr> pendingTilesetUserData :=
                                  Some (pt \<lparr> pt_tileIndex := pt_tileIndex pt + 1 \<rparr>) \<rparr>)
                 (st \<lparr> st_tilesets := mapAt (pt_tileset pt)
                      (\<lambda>t. t \<lparr> tileUserData :=
                         Some (arraySet (case tileUserData t of None \<Rightarrow> [] | Some us \<Rightarrow> us)
                                 (pt_tileIndex pt) ud) \<rparr>)
                      (st_tilesets st) \<rparr>)
         | None \<Rightarrow>
             (case lastAttachTarget c of
                Some (TLayer i) \<Rightarrow>
                  st \<lparr> st_layers := mapAt i (\<lambda>l. l \<lparr> layer_userData := Some ud \<rparr>)
                                       (st_layers st) \<rparr>
              | Some (TCel f i) \<Rightarrow> updCel f i (\<lambda>b. b \<lparr> cel_userData := Some ud \<rparr>) st
              | Some (TSlice i) \<Rightarrow>
                  st \<lparr> st_slices := mapAt i (\<lambda>s. s \<lparr> slice_userData := Some ud \<rparr>)
                                       (st_slices st) \<rparr>
              | Some (TTileset i) \<Rightarrow>
                  st \<lparr> st_tilesets := mapAt i (\<lambda>t. t \<lparr> tileset_userData := Some ud \<rparr>)
                                         (st_tilesets st) \<rparr>
              | Some TSprite \<Rightarrow> st
              | None \<Rightarrow> st)))"

definition clearCursors :: "attachTarget option \<Rightarrow> parseState \<Rightarrow> parseState" where
  "clearCursors target st =
     updCtx (\<lambda>c. c \<lparr> lastAttachTarget := target, pendingTagUserData := None,
                     pendingTilesetUserData := None \<rparr>) st"

text \<open>
  \<open>parseChunk\<close>: the chunk's parser, then the transition of the context. A new object is
  given the position at which \<open>parseAseprite\<close> pushes it right after.
\<close>

definition parseChunk ::
  "platform \<Rightarrow> int \<Rightarrow> int \<Rightarrow> parseState \<Rightarrow> (parsedChunk \<times> parseState) rd" where
  "parseChunk pf chunkType chunkEndOffset st =
     (if chunkType = ChunkType_Layer then
        rbind (parseLayerChunk pf) (\<lambda>l.
        rret (PLayerChunk l, clearCursors (Some (TLayer (length (st_layers st)))) st))
      else if chunkType = ChunkType_Cel then
        rbind (parseCelChunk chunkEndOffset) (\<lambda>c.
        rret (PCelChunk c,
              updCtx (\<lambda>c. c \<lparr> lastCel := Some (length (st_cels st)) \<rparr>)
                (clearCursors (Some (TCel (length (st_frames st)) (length (st_cels st)))) st)))
      else if chunkType = ChunkType_CelExtra then
        rbind parseCelExtraChunk (\<lambda>e.
        rret (PCelExtraChunk e,
              (case lastCel (ctx st) of
                 Some i \<Rightarrow> st \<lparr> st_cels := mapAt i (map_cel_base (\<lambda>b. b \<lparr> cel_extra := Some e \<rparr>))
                                              (st_cels st) \<rparr>
               | None \<Rightarrow> st)))
      else if chunkType = ChunkType_Palette then
        rbind (parsePaletteChunk pf) (\<lambda>p. rret (PPaletteChunk p, clearCursors None st))
      else if chunkType = ChunkType_OldPalette1 \<or> chunkType = ChunkType_OldPalette2 then
        rbind parseOldPaletteChunk (\<lambda>ps.
        rret (POldPaletteChunk chunkType ps, clearCursors None st))
      else if chunkType = ChunkType_Tags then
        rbind (parseTagsChunk pf) (\<lambda>ts.
        rret (PTagsChunk ts,
              updCtx (\<lambda>c. c \<lparr> pendingTagUserData := Some (length (st_tags st), length ts),
                              pendingTagUserDataIndex := 0,
                              lastAttachTarget := None,
                              pendingTilesetUserData := None \<rparr>) st))
      else if chunkType = ChunkType_UserData then
        rbind (parseUserDataChunk pf) (\<lambda>ud. rret (PUserDataChunk ud, attachUserData ud st))
      else if chunkType = ChunkType_Slice then
        rbind (parseSliceChunk pf) (\<lambda>s.
        rret (PSliceChunk s, clearCursors (Some (TSlice (length (st_slices st)))) st))
      else if chunkType = ChunkType_Tileset then
        rbind (parseTilesetChunk pf) (\<lambda>t.
        rret (PTilesetChunk t,
              updCtx (\<lambda>c. c \<lparr> lastAttachTarget := Some (TTileset (length (st_tilesets st))),
                              pendingTagUserData := None,
                              pendingTilesetUserData :=
                                Some \<lparr> pt_tileset = length (st_tilesets st),
                                       pt_phase = PhaseTileset, pt_tileIndex = 0 \<rparr> \<rparr>) st))
      else if chunkType = ChunkType_ColorProfile then
        rbind parseColorProfileChunk (\<lambda>p. rret (PColorProfileChunk p, clearCursors None st))
      else if chunkType = ChunkType_ExternalFiles then
        rbind (parseExternalFilesChunk pf) (\<lambda>fs.
        rret (PExternalFilesChunk fs, clearCursors None st))
      else
        rbind r_getOffset (\<lambda>off.
        rbind (r_bytes (chunkEndOffset - off)) (\<lambda>rawData.
        rret (PUnknownChunk chunkType rawData, st))))"

text \<open>
  "Collect parsed data": the chunk's object is pushed on its list. User data becomes the
  sprite's only in frame 0 and with the attach target \<open>sprite\<close>. A chunk of no known
  type is kept among the unknown chunks unless its type is a value of \<open>ChunkType\<close>.
\<close>

definition collectChunk :: "nat \<Rightarrow> parsedChunk \<Rightarrow> parseState \<Rightarrow> parseState" where
  "collectChunk frameIdx chunk st =
     (case chunk of
        PLayerChunk l \<Rightarrow> st \<lparr> st_layers := st_layers st @ [l] \<rparr>
      | PCelChunk c \<Rightarrow> st \<lparr> st_cels := st_cels st @ [c] \<rparr>
      | PPaletteChunk p \<Rightarrow> st \<lparr> st_palette := Some p \<rparr>
      | POldPaletteChunk ty ps \<Rightarrow>
          st \<lparr> st_oldPaletteChunks := st_oldPaletteChunks st @ [(ty, ps)] \<rparr>
      | PTagsChunk ts \<Rightarrow> st \<lparr> st_tags := st_tags st @ ts \<rparr>
      | PSliceChunk s \<Rightarrow> st \<lparr> st_slices := st_slices st @ [s] \<rparr>
      | PTilesetChunk t \<Rightarrow> st \<lparr> st_tilesets := st_tilesets st @ [t] \<rparr>
      | PColorProfileChunk p \<Rightarrow> st \<lparr> st_colorProfile := Some p \<rparr>
      | PExternalFilesChunk fs \<Rightarrow> st \<lparr> st_externalFiles := Some fs \<rparr>
      | PUserDataChunk ud \<Rightarrow>
          if frameIdx = 0 \<and> lastAttachTarget (ctx st) = Some TSprite
          then st \<lparr> st_spriteUserData := Some ud \<rparr> else st
      | PCelExtraChunk e \<Rightarrow> st
      | PUnknownChunk ty raw \<Rightarrow>
          if ty \<notin> set chunkTypeValues
          then st \<lparr> st_unknownChunks := st_unknownChunks st @ [(ty, raw)] \<rparr> else st)"

text \<open>
  The chunk as the frame's chunk list keeps it, with the position its object has once
  collected (taken before \<open>collectChunk\<close>).
\<close>

definition storedChunk :: "parsedChunk \<Rightarrow> parseState \<Rightarrow> chunk" where
  "storedChunk chunk st =
     (case chunk of
        PLayerChunk l \<Rightarrow> LayerChunk (length (st_layers st))
      | PCelChunk c \<Rightarrow> CelChunk (length (st_cels st))
      | PCelExtraChunk e \<Rightarrow> CelExtraChunk e
      | PPaletteChunk p \<Rightarrow> PaletteChunk p
      | POldPaletteChunk ty ps \<Rightarrow> OldPaletteChunk ty ps
      | PTagsChunk ts \<Rightarrow> TagsChunk (length (st_tags st)) (length ts)
      | PUserDataChunk ud \<Rightarrow> UserDataChunk ud
      | PSliceChunk s \<Rightarrow> SliceChunk (length (st_slices st))
      | PTilesetChunk t \<Rightarrow> TilesetChunk (length (st_tilesets st))
      | PColorProfileChunk p \<Rightarrow> ColorProfileChunk p
      | PExternalFilesChunk fs \<Rightarrow> ExternalFilesChunk fs
      | PUnknownChunk ty raw \<Rightarrow> UnknownChunk ty raw)"

text \<open>One round of the chunk loop.\<close>

definition parseOneChunk ::
  "platform \<Rightarrow> requiredParseOptions \<Rightarrow> nat \<Rightarrow> parseState \<Rightarrow> parseState rd" where
  "parseOneChunk pf options frameIdx st =
     rbind r_getOffset (\<lambda>chunkStartOffset.
     rbind r_u32 (\<lambda>chunkSize.
     rbind r_u16 (\<lambda>chunkType.
     rbind r_length (\<lambda>bytesLength.
     let chunkEndOffset = chunkStartOffset + chunkSize in
     if opt_strict options \<and> chunkEndOffset > bytesLength
     then rfail (AseFormatError BAD_CHUNK_SIZE)
     else
       rbind (parseChunk pf chunkType chunkEndOffset st) (\<lambda>(chunk, st1).
       let st2 = collectChunk frameIdx chunk st1;
           st3 = (if opt_preserveChunks options
                  then st2 \<lparr> st_chunks := st_chunks st2 @ [storedChunk chunk st1] \<rparr>
                  else st2)
       in rbind (r_seek chunkEndOffset) (\<lambda>_. rret st3))))))"

primrec parseChunks ::
  "nat \<Rightarrow> platform \<Rightarrow> requiredParseOptions \<Rightarrow> nat \<Rightarrow> parseState \<Rightarrow> parseState rd" where
  "parseChunks 0 pf options frameIdx st = rret st"
| "parseChunks (Suc n) pf options frameIdx st =
     rbind (parseOneChunk pf options frameIdx st) (parseChunks n pf options frameIdx)"

text \<open>
  The frame header as \<open>parseAseprite\<close> reads it, with the chunk count it settles on and
  the duration after the header's speed has replaced a zero.
\<close>

record frameHeaderInfo =
  fh_frameStartOffset :: int
  fh_frameSize :: int
  fh_oldChunkCount :: int
  fh_newChunkCount :: int
  fh_chunkCount :: int
  fh_durationMs :: int

definition parseFrameHeader :: "bool \<Rightarrow> int \<Rightarrow> frameHeaderInfo rd" where
  "parseFrameHeader strictMode headerSpeed =
     rbind r_getOffset (\<lambda>frameStartOffset.
     rbind r_u32 (\<lambda>frameSize.
     rbind r_u16 (\<lambda>frameMagic.
     if strictMode \<and> frameMagic \<noteq> ASE_FRAME_MAGIC then rfail (AseFormatError BAD_MAGIC)
     else
     rbind r_u16 (\<lambda>oldChunkCount.
     rbind r_u16 (\<lambda>duration.
     rbind (r_skip 2) (\<lambda>_.
     rbind r_u32 (\<lambda>newChunkCount.
     let chunkCount =
           (if newChunkCount = 0 then oldChunkCount
            else if oldChunkCount = 0xFFFF then newChunkCount
            else oldChunkCount)
     in rret \<lparr> fh_frameStartOffset = frameStartOffset, fh_frameSize = frameSize,
              fh_oldChunkCount = oldChunkCount, fh_newChunkCount = newChunkCount,
              fh_chunkCount = chunkCount,
              fh_durationMs = (if duration = 0 then headerSpeed else duration) \<rparr>)))))))"

text \<open>One round of the frame loop.\<close>

definition parseFrame ::
  "platform \<Rightarrow> requiredParseOptions \<Rightarrow> int \<Rightarrow> nat \<Rightarrow> parseState \<Rightarrow> parseState rd" where
  "parseFrame pf options headerSpeed frameIdx st =
     (let st0 = updCtx (\<lambda>c. c \<lparr> ctx_frameIndex := frameIdx, lastCel := None \<rparr>) st in
      rbind (parseFrameHeader (opt_strict options) headerSpeed) (\<lambda>fh.
      rbind (parseChunks (nat (fh_chunkCount fh)) pf options frameIdx
               (st0 \<lparr> st_cels := [], st_chunks := [] \<rparr>)) (\<lambda>st1.
      let fr = \<lparr> durationMs = fh_durationMs fh, cels = st_cels st1,
                 chunks = (if opt_preserveChunks options then Some (st_chunks st1) else None) \<rparr>
      in rbind (r_seek (fh_frameStartOffset fh + fh_frameSize fh)) (\<lambda>_.
         rret (st1 \<lparr> st_frames := st_frames st1 @ [fr] \<rparr>)))))"

primrec parseFrames ::
  "nat \<Rightarrow> platform \<Rightarrow> requiredParseOptions \<Rightarrow> int \<Rightarrow> nat \<Rightarrow> parseState \<Rightarrow> parseState rd" where
  "parseFrames 0 pf options headerSpeed frameIdx st = rret st"
| "parseFrames (Suc n) pf options headerSpeed frameIdx st =
     rbind (parseFrame pf options headerSpeed frameIdx st)
       (parseFrames n pf options headerSpeed (Suc frameIdx))"

text \<open>\<open>convertOldPalette\<close>: each packet skips entries, then writes its colours opaque.\<close>

fun writeColors ::
  "(int \<times> int \<times> int) list \<Rightarrow> paletteEntry option list \<times> nat \<Rightarrow> paletteEntry option list \<times> nat"
where
  "writeColors [] (es, i) = (es, i)"
| "writeColors ((r, g, b) # cs) (es, i) =
     writeColors cs
       (arraySet es i \<lparr> pe_r = r, pe_g = g, pe_b = b, pe_a = 255, pe_name = None \<rparr>, i + 1)"

definition writePacket ::
  "paletteEntry option list \<times> nat \<Rightarrow> oldPalettePacket \<Rightarrow> paletteEntry option list \<times> nat" where
  "writePacket acc p = (case acc of (es, i) \<Rightarrow> writeColors (colors p) (es, i + nat (skipCount p)))"

definition convertOldPalette :: "(int \<times> oldPalettePacket list) list \<Rightarrow> palette option" where
  "convertOldPalette oldChunks =
     (if oldChunks = [] then None
      else
        (let es = fst (foldl (\<lambda>acc (ty, packets). foldl writePacket acc packets) ([], 0) oldChunks)
         in Some \<lparr> palette_size = int (length es), firstIndex = 0,
                   lastIndex = int (length es) - 1, entries = es \<rparr>))"

definition someIfNonEmpty :: "'a list \<Rightarrow> 'a list option" where
  "someIfNonEmpty xs = (if xs = [] then None else Some xs)"

text \<open>The result object, built from the lists once all frames are read.\<close>

definition assembleFile :: "aseHeader \<Rightarrow> parseState \<Rightarrow> asepriteFile" where
  "assembleFile h st =
     \<lparr> header = h, frames = st_frames st, layers = st_layers st,
       tags = someIfNonEmpty (st_tags st),
       slices = someIfNonEmpty (st_slices st),
       file_palette =
         (case st_palette st of
            Some p \<Rightarrow> Some p
          | None \<Rightarrow> if st_oldPaletteChunks st \<noteq> []
                    then convertOldPalette (st_oldPaletteChunks st) else None),
       tilesets = someIfNonEmpty (st_tilesets st),
       file_colorProfile = st_colorProfile st,
       externalFiles = st_externalFiles st,
       file_userData = st_spriteUserData st,
       unknownChunks = someIfNonEmpty (st_unknownChunks st) \<rparr>"

definition parseAseprite :: "platform \<Rightarrow> byte list \<Rightarrow> parseOptions option \<Rightarrow> error + asepriteFile" where
  "parseAseprite pf bytes opts =
     (let options = mergeOptions opts in
      case rbind (parseHeader (opt_strict options)) (\<lambda>h.
           rbind (parseFrames (nat (frameCount h)) pf options (speed h) 0 initialState) (\<lambda>st.
           rret (assembleFile h st)))
             \<lparr> r_data = bytes, r_offset = 0 \<rparr> of
        Inl e \<Rightarrow> Inl e
      | Inr (file, r) \<Rightarrow> Inr file)"

section \<open>Frame headers (encode.ts)\<close>

definition encodeFrameHeader :: "int \<Rightarrow> int \<Rightarrow> int \<Rightarrow> byte list" where
  "encodeFrameHeader frameSize chunkCount duration =
     (w_u32 chunkCount
     (w_zeros 2
     (w_u16 duration
     (w_u16 (if chunkCount > 0xFFFE then 0xFFFF else chunkCount)
     (w_u16 ASE_FRAME_MAGIC
     (w_u32 frameSize []))))))"

text \<open>
  Both \<open>encodeChunksMode\<close> and \<open>encodeCanonicalMode\<close> build a frame from the buffers of
  its encoded chunks in the same way: the frame size is 16 plus their lengths, the chunk
  count their number (in chunks mode \<open>frame.chunks.length\<close>, one buffer per chunk), and
  the buffers follow the header.
\<close>

definition frameBuffer :: "byte list list \<Rightarrow> int \<Rightarrow> byte list" where
  "frameBuffer chunkBuffers duration =
     (let chunksSize = (\<Sum>buf \<leftarrow> chunkBuffers. int (length buf));
          frameSize = 16 + chunksSize
      in encodeFrameHeader frameSize (int (length chunkBuffers)) duration
         @ concat chunkBuffers)"

section \<open>User data encoder (chunks/encode.ts)\<close>

definition isInteger :: "real \<Rightarrow> bool" where
  "isInteger x = (real_of_int \<lfloor>x\<rfloor> = x)"

text \<open>
  \<open>getPropertyType\<close>. The placeholder \<open>{unknownType: n}\<close> is an object with none of the
  keys the last tests look for, so it falls through to the final \<open>return PropertyType.Null\<close>.
\<close>

fun getPropertyType :: "propertyValue \<Rightarrow> int" where
  "getPropertyType PNull = PropertyType_Null"
| "getPropertyType (PBool b) = PropertyType_Bool"
| "getPropertyType (PBigInt n) = (if n \<ge> 0 then PropertyType_Uint64 else PropertyType_Int64)"
| "getPropertyType (PNumber x) =
     (if isInteger x then
        (if x \<ge> 0 then
           (if x \<le> 255 then PropertyType_Uint8
            else if x \<le> 65535 then PropertyType_Uint16
            else PropertyType_Uint32)
         else
           (if x \<ge> - 128 then PropertyType_Int8
            else if x \<ge> - 32768 then PropertyType_Int16
            else PropertyType_Int32))
      else PropertyType_Double)"
| "getPropertyType (PString s) =
     (if length s = 36 \<and> 45 \<in> set s then PropertyType_UUID else PropertyType_String)"
| "getPropertyType (PVector vs) = PropertyType_Vector"
| "getPropertyType (PMap m) = PropertyType_PropertiesMap"
| "getPropertyType (PRect x y w h) = PropertyType_Rect"
| "getPropertyType (PSize w h) = PropertyType_Size"
| "getPropertyType (PPoint x y) = PropertyType_Point"
| "getPropertyType (PUnknown n) = PropertyType_Null"

text \<open>
  \<open>encodePropertyValue\<close> switches on the type code and casts the value without a check.
  Each case is given on the shape its cast names (any number for the numeric codes); on
  another shape the result is \<open>Unmodelled\<close>. A code outside the switch writes nothing.
\<close>

fun encodePropertyValue :: "platform \<Rightarrow> propertyValue \<Rightarrow> int \<Rightarrow> writer \<Rightarrow> error + writer"
  and encodeElements :: "platform \<Rightarrow> propertyValue list \<Rightarrow> int \<Rightarrow> writer \<Rightarrow> error + writer"
  and encodeEntries :: "platform \<Rightarrow> (jsstring \<times> propertyValue) list \<Rightarrow> writer \<Rightarrow> error + writer"
where
  "encodePropertyValue pf v t w =
     (if t = PropertyType_Null then Inr w
      else if t = PropertyType_Bool then
        (case v of PBool b \<Rightarrow> Inr (w_u8 (if b then 1 else 0) w) | _ \<Rightarrow> Inl Unmodelled)
      else if t = PropertyType_Int8 then
        (case v of PNumber x \<Rightarrow> Inr (w_u8 (js_trunc (x + 128)) w) | _ \<Rightarrow> Inl Unmodelled)
      else if t = PropertyType_Uint8 then
        (case v of PNumber x \<Rightarrow> Inr (w_u8 (js_trunc x) w) | _ \<Rightarrow> Inl Unmodelled)
      else if t = PropertyType_Int16 then
        (case v of PNumber x \<Rightarrow> Inr (w_i16 (js_trunc x) w) | _ \<Rightarrow> Inl Unmodelled)
      else if t = PropertyType_Uint16 then
        (case v of PNumber x \<Rightarrow> Inr (w_u16 (js_trunc x) w) | _ \<Rightarrow> Inl Unmodelled)
      else if t = PropertyType_Int32 then
        (case v of PNumber x \<Rightarrow> Inr (w_i32 (js_trunc x) w) | _ \<Rightarrow> Inl Unmodelled)
      else if t = PropertyType_Uint32 then
        (case v of PNumber x \<Rightarrow> Inr (w_u32 (js_trunc x) w) | _ \<Rightarrow> Inl Unmodelled)
      else if t = PropertyType_Int64 then
        (case v of PBigInt n \<Rightarrow> Inr (w_i64 n w) | _ \<Rightarrow> Inl Unmodelled)
      else if t = PropertyType_Uint64 then
        (case v of PBigInt n \<Rightarrow> Inr (w_u64 n w) | _ \<Rightarrow> Inl Unmodelled)
      else if t = PropertyType_Fixed then
        (case v of PNumber x \<Rightarrow> Inr (w_fixed16_16 x w) | _ \<Rightarrow> Inl Unmodelled)
      else if t = PropertyType_Float then
        (case v of PNumber x \<Rightarrow> Inr (w_f32 pf x w) | _ \<Rightarrow> Inl Unmodelled)
      else if t = PropertyType_Double then
        (case v of PNumber x \<Rightarrow> Inr (w_f64 pf x w) | _ \<Rightarrow> Inl Unmodelled)
      else if t = PropertyType_String then
        (case v of PString s \<Rightarrow> w_string pf s w | _ \<Rightarrow> Inl Unmodelled)
      else if t = PropertyType_Point then
        (case v of PPoint x y \<Rightarrow> Inr (w_i32 y (w_i32 x w)) | _ \<Rightarrow> Inl Unmodelled)
      else if t = PropertyType_Size then
        (case v of PSize wd ht \<Rightarrow> Inr (w_i32 ht (w_i32 wd w)) | _ \<Rightarrow> Inl Unmodelled)
      else if t = PropertyType_Rect then
        (case v of PRect x y wd ht \<Rightarrow> Inr (w_i32 ht (w_i32 wd (w_i32 y (w_i32 x w))))
         | _ \<Rightarrow> Inl Unmodelled)
      else if t = PropertyType_Vector then
        (case v of
           PVector arr \<Rightarrow>
             (case arr of
                [] \<Rightarrow> Inr (w_u16 PropertyType_Null (w_u32 0 w))
              | first # _ \<Rightarrow>
                  encodeElements pf arr (getPropertyType first)
                    (w_u16 (getPropertyType first) (w_u32 (int (length arr)) w)))
         | _ \<Rightarrow> Inl Unmodelled)
      else if t = PropertyType_PropertiesMap then
        (case v of PMap m \<Rightarrow> encodeEntries pf m (w_u32 (int (length m)) w)
         | _ \<Rightarrow> Inl Unmodelled)
      else if t = PropertyType_UUID then
        (case v of PString s \<Rightarrow> w_uuid s w | _ \<Rightarrow> Inl Unmodelled)
      else Inr w)"
| "encodeElements pf [] t w = Inr w"
| "encodeElements pf (e # es) t w =
     wbind (encodePropertyValue pf e t w) (encodeElements pf es t)"
| "encodeEntries pf [] w = Inr w"
| "encodeEntries pf ((k, val) # kvs) w =
     wbind (w_string pf k w) (\<lambda>w1.
     wbind (encodePropertyValue pf val (getPropertyType val) (w_u16 (getPropertyType val) w1))
       (encodeEntries pf kvs))"

declare encodePropertyValue.simps [simp del]

text \<open>\<open>String.replace(pattern, replacement)\<close> with a string pattern: the first occurrence.\<close>

fun replaceFirst :: "jsstring \<Rightarrow> jsstring \<Rightarrow> jsstring \<Rightarrow> jsstring" where
  "replaceFirst pat rep [] = (if pat = [] then rep else [])"
| "replaceFirst pat rep (c # cs) =
     (if take (length pat) (c # cs) = pat then rep @ drop (length pat) (c # cs)
      else c # replaceFirst pat rep cs)"

text \<open>The properties of one extension, each as name, type code and value.\<close>

fun encodeProps :: "platform \<Rightarrow> (jsstring \<times> propertyValue) list \<Rightarrow> writer \<Rightarrow> error + writer" where
  "encodeProps pf [] w = Inr w"
| "encodeProps pf ((propName, propValue) # ps) w =
     wbind (w_string pf propName w) (\<lambda>w1.
     wbind (encodePropertyValue pf propValue (getPropertyType propValue)
              (w_u16 (getPropertyType propValue) w1))
       (encodeProps pf ps))"

fun encodeExtensions :: "platform \<Rightarrow> propertiesMap \<Rightarrow> writer \<Rightarrow> error + writer" where
  "encodeExtensions pf [] w = Inr w"
| "encodeExtensions pf ((extKey, props) # es) w =
     (let extId = (case parseInt (replaceFirst (lit ''ext_'') [] extKey) 10 of
                     None \<Rightarrow> 0 | Some n \<Rightarrow> n)
      in wbind (encodeProps pf props (w_u32 (int (length props)) (w_u32 extId w)))
           (encodeExtensions pf es))"

definition encodePropertiesMap :: "platform \<Rightarrow> propertiesMap \<Rightarrow> writer \<Rightarrow> error + writer" where
  "encodePropertiesMap pf properties w =
     encodeExtensions pf properties (w_u32 (int (length properties)) w)"

text \<open>
  \<open>encodeUserDataChunk\<close>. The text is tested for truth, so the empty string counts as
  absent; a colour and a properties map are objects and count as present.
\<close>

definition encodeUserDataChunk :: "platform \<Rightarrow> userData \<Rightarrow> error + byte list" where
  "encodeUserDataChunk pf ud =
     (let hasText = (case ud_text ud of None \<Rightarrow> False | Some s \<Rightarrow> s \<noteq> []);
          flags = (if hasText then UserDataFlags_HasText else 0)
                + (if ud_color ud \<noteq> None then UserDataFlags_HasColor else 0)
                + (if ud_properties ud \<noteq> None then UserDataFlags_HasProperties else 0);
          w0 = w_u32 flags []
      in wbind (if hasText then w_string pf (the (ud_text ud)) w0 else Inr w0) (\<lambda>w1.
         let w2 = (case ud_color ud of
                     None \<Rightarrow> w1
                   | Some (r, g, b, a) \<Rightarrow> w_u8 a (w_u8 b (w_u8 g (w_u8 r w1))))
         in (case ud_properties ud of
               None \<Rightarrow> Inr w2
             | Some properties \<Rightarrow> encodePropertiesMap pf properties w2)))"

text \<open>\<open>wrapChunk\<close>: the size (header included), the type, the data.\<close>

definition wrapChunk :: "int \<Rightarrow> byte list \<Rightarrow> byte list" where
  "wrapChunk chunkType data =
     w_bytes data (w_u16 chunkType (w_u32 (int (length data) + 6) []))"

section \<open>The validator's check on links (validate.ts)\<close>

text \<open>
  \<open>validateFrames\<close> reports FORWARD_LINKED_CEL for a linked cel of frame \<open>i\<close> whose
  target frame is in range and not before \<open>i\<close>. \<open>noForwardLinks\<close> holds of a file
  for which it reports none.
\<close>

definition noForwardLinks :: "asepriteFile \<Rightarrow> bool" where
  "noForwardLinks file =
     list_all (\<lambda>(i, fr). list_all (\<lambda>c. case c of
          LinkedCel b l \<Rightarrow> l < 0 \<or> l \<ge> int (length (frames file)) \<or> l < int i
        | _ \<Rightarrow> True) (cels fr))
       (enumerate 0 (frames file))"

section \<open>Predicates on the parser's states and errors\<close>

text \<open>
  \<open>noSprite\<close> holds of a state of the parser in which the attach target is not
  \<open>sprite\<close> and no sprite-level user data has been taken.
\<close>

definition noSprite :: "parseState \<Rightarrow> bool" where
  "noSprite st = (lastAttachTarget (ctx st) \<noteq> Some TSprite \<and> st_spriteUserData st = None)"

text \<open>\<open>neverRaises e m\<close>: on no buffer and at no offset does the read \<open>m\<close> throw \<open>e\<close>.\<close>

definition neverRaises :: "error \<Rightarrow> 'a rd \<Rightarrow> bool" where
  "neverRaises e m = (\<forall>r. m r \<noteq> Inl e)"

section \<open>Example values\<close>

definition tag02 :: "int \<Rightarrow> tag" where
  "tag02 d = \<lparr> fromFrame = 0, toFrame = 2, direction = d, repeat = 0,
      tag_color = (0, 0, 0), tag_name = lit ''test'', tag_userData = None \<rparr>"

definition stdMasks :: tilemapMasks where
  "stdMasks = \<lparr> tileIdMask = 0x1FFFFFFF, xFlipMask = 0x20000000,
      yFlipMask = 0x40000000, rotationMask = 0x80000000 \<rparr>"

definition wideFlipMasks :: tilemapMasks where
  "wideFlipMasks = \<lparr> tileIdMask = 0x0FFFFFFF, xFlipMask = 0x30000000,
      yFlipMask = 0x40000000, rotationMask = 0x80000000 \<rparr>"

definition exampleHeader :: aseHeader where
  "exampleHeader = \<lparr> fileSize = 0, magic = 0xA5E0, frameCount = 1, width = 16, height = 16,
     colorDepth = 32, header_flags = 0, speed = 0, transparentIndex = 0, colorCount = 0,
     pixelWidth = 1, pixelHeight = 1, gridX = 0, gridY = 0, gridWidth = 16, gridHeight = 16 \<rparr>"

definition baseOnLayer :: "int \<Rightarrow> celBase" where
  "baseOnLayer l = \<lparr> layerIndex = l, cel_x = 0, cel_y = 0, cel_opacity = 255, zIndex = 0,
     cel_userData = None, cel_extra = None \<rparr>"

definition fileOfFrames :: "cel list list \<Rightarrow> asepriteFile" where
  "fileOfFrames fs = \<lparr> header = exampleHeader,
     frames = map (\<lambda>cs. \<lparr> durationMs = 100, cels = cs, chunks = None \<rparr>) fs,
     layers = [], tags = None, slices = None, file_palette = None, tilesets = None,
     file_colorProfile = None, externalFiles = None, file_userData = None,
     unknownChunks = None \<rparr>"

definition selfLinked :: cel where
  "selfLinked = LinkedCel (baseOnLayer 0) 0"

definition rawCel :: cel where
  "rawCel = RawImageCel (baseOnLayer 0) 1 1
     \<lparr> img_kind = KindRaw, img_bytes = [255, 0, 0, 255], img_decoded = None \<rparr>"

definition linkedToFirst :: cel where
  "linkedToFirst = LinkedCel (baseOnLayer 0) 0"

definition linkedToSecond :: cel where
  "linkedToSecond = LinkedCel (baseOnLayer 0) 1"

definition linkedToThird :: cel where
  "linkedToThird = LinkedCel (baseOnLayer 0) 2"

definition keyAt :: "int \<Rightarrow> int \<Rightarrow> int \<Rightarrow> sliceKey" where
  "keyAt fr x w = \<lparr> frameIndex = fr, key_x = x, key_y = 0, key_width = w, key_height = 10,
     center = None, pivot = None \<rparr>"

definition hitbox :: slice where
  "hitbox = \<lparr> slice_name = lit ''hitbox'', slice_flags = 0,
     keys = [keyAt 0 10 20, keyAt 2 15 25], slice_userData = None \<rparr>"

definition hitboxFile :: asepriteFile where
  "hitboxFile = (fileOfFrames [[], [], []]) \<lparr> slices := Some [hitbox] \<rparr>"

text \<open>
  A platform for the examples: its text codec is UTF-8 on ASCII text (one byte per
  character); its float accessors are placeholders, which no example reaches.
\<close>

definition asciiPlatform :: platform where
  "asciiPlatform = \<lparr> textDecode = map unat, textEncode = map of_nat,
     getFloat32 = (\<lambda>_. 0), getFloat64 = (\<lambda>_. 0),
     setFloat32 = (\<lambda>_. replicate 4 0), setFloat64 = (\<lambda>_. replicate 8 0) \<rparr>"

definition placeholderUserData :: userData where
  "placeholderUserData = \<lparr> ud_text = None, ud_color = None,
     ud_properties = Some [(lit ''ext_0'', [(lit ''p'', PUnknown 99)])] \<rparr>"

text \<open>
  A file header of 128 bytes: magic 0xA5E0, one frame, 16 by 16 pixels, 32 bits per pixel,
  speed 100.
\<close>

definition headerBytes :: "byte list" where
  "headerBytes =
     [0, 0, 0, 0, 0xE0, 0xA5, 1, 0, 16, 0, 16, 0, 32, 0, 0, 0, 0, 0, 100, 0,
      0, 0, 0, 0, 0, 0, 0, 0, 0, 0, 0, 0, 0, 0, 1, 1, 0, 0, 0, 0, 16, 0, 16, 0,
      0, 0, 0, 0, 0, 0, 0, 0, 0, 0, 0, 0, 0, 0, 0, 0, 0, 0, 0, 0, 0, 0, 0, 0, 0, 0, 0, 0,
      0, 0, 0, 0, 0, 0, 0, 0, 0, 0, 0, 0, 0, 0, 0, 0, 0, 0, 0, 0, 0, 0, 0, 0, 0, 0, 0, 0,
      0, 0, 0, 0, 0, 0, 0, 0, 0, 0, 0, 0, 0, 0, 0, 0, 0, 0, 0, 0, 0, 0, 0, 0, 0, 0, 0, 0]"

text \<open>
  A file whose only frame holds one UserData chunk (flags 1, the text "hi") and nothing
  before it; the chunk's payload starts at offset 150 and the chunk ends at 158.
\<close>

definition userDataFile :: "byte list" where
  "userDataFile = headerBytes @
     [30, 0, 0, 0, 0xFA, 0xF1, 1, 0, 100, 0, 0, 0, 0, 0, 0, 0,
      14, 0, 0, 0, 0x20, 0x20, 1, 0, 0, 0, 2, 0, 104, 105]"

definition hiUserData :: userData where
  "hiUserData = \<lparr> ud_text = Some (lit ''hi''), ud_color = None, ud_properties = None \<rparr>"

definition userDataFileResult :: asepriteFile where
  "userDataFileResult =
     \<lparr> header = \<lparr> fileSize = 0, magic = 0xA5E0, frameCount = 1, width = 16, height = 16,
         colorDepth = 32, header_flags = 0, speed = 100, transparentIndex = 0,
         colorCount = 0, pixelWidth = 1, pixelHeight = 1, gridX = 0, gridY = 0,
         gridWidth = 16, gridHeight = 16 \<rparr>,
       frames = [\<lparr> durationMs = 100, cels = [], chunks = Some [UserDataChunk hiUserData] \<rparr>],
       layers = [], tags = None, slices = None, file_palette = None, tilesets = None,
       file_colorProfile = None, externalFiles = None, file_userData = None,
       unknownChunks = None \<rparr>"

text \<open>
  A file whose only frame holds one Cel chunk with the variant tag 4; the chunk's payload
  starts at offset 150.
\<close>

definition unknownCelFile :: "byte list" where
  "unknownCelFile = headerBytes @
     [38, 0, 0, 0, 0xFA, 0xF1, 1, 0, 100, 0, 0, 0, 0, 0, 0, 0,
      22, 0, 0, 0, 0x05, 0x20, 0, 0, 0, 0, 0, 0, 255, 4, 0, 0, 0, 0, 0, 0, 0, 0]"

text \<open>
  A frame of one UserData chunk whose header has the old chunk count 0xFFFF and the new
  chunk count 1.
\<close>

definition wideCountFrame :: "byte list" where
  "wideCountFrame =
     [30, 0, 0, 0, 0xFA, 0xF1, 0xFF, 0xFF, 100, 0, 0, 0, 1, 0, 0, 0,
      14, 0, 0, 0, 0x20, 0x20, 1, 0, 0, 0, 2, 0, 104, 105]"

text \<open>What the parser reads from \<open>wideCountFrame\<close>: its header and the state after it.\<close>

definition wideCountHeader :: frameHeaderInfo where
  "wideCountHeader = \<lparr> fh_frameStartOffset = 0, fh_frameSize = 30, fh_oldChunkCount = 0xFFFF,
     fh_newChunkCount = 1, fh_chunkCount = 1, fh_durationMs = 100 \<rparr>"




definition noChunkLists :: requiredParseOptions where
  "noChunkLists = DEFAULT_OPTIONS \<lparr> opt_preserveChunks := False \<rparr>"



text \<open>
  The options that switch \<open>preserveChunks\<close> off, and \<open>userDataFile\<close> as it parses with
  them.
\<close>

definition withoutChunks :: parseOptions where
  "withoutChunks = \<lparr> preserveChunks = Some False, preserveCompressed = None,
     decodeImages = None, strict = None \<rparr>"

definition userDataFileBare :: asepriteFile where
  "userDataFileBare = userDataFileResult
     \<lparr> frames := [\<lparr> durationMs = 100, cels = [], chunks = None \<rparr>] \<rparr>"

section \<open>Properties\<close>

subsection \<open>Tag playback order\<close>

lemma pushUpTo_eq: "pushUpTo i to acc = acc @ [i..to]"
proof (induction i to acc rule: pushUpTo.induct)
  case (1 i to acc)
  show ?case
  proof (cases "i \<le> to")
    case True
    then show ?thesis using 1 by (subst pushUpTo.simps) (simp add: upto_rec1)
  next
    case False
    then show ?thesis by (subst pushUpTo.simps) simp
  qed
qed

lemma pushDownTo_eq: "pushDownTo i from acc = acc @ rev [from..i]"
proof (induction i "from" acc rule: pushDownTo.induct)
  case (1 i frm acc)
  show ?case
  proof (cases "frm \<le> i")
    case True
    then show ?thesis using 1 by (subst pushDownTo.simps) (simp add: upto_rec2)
  next
    case False
    then show ?thesis by (subst pushDownTo.simps) simp
  qed
qed

lemma pushDownAbove_eq: "pushDownAbove i from acc = acc @ rev [from + 1..i]"
proof (induction i "from" acc rule: pushDownAbove.induct)
  case (1 i frm acc)
  show ?case
  proof (cases "frm < i")
    case True
    then show ?thesis using 1 by (subst pushDownAbove.simps) (simp add: upto_rec2)
  next
    case False
    then show ?thesis by (subst pushDownAbove.simps) simp
  qed
qed

lemma pushUpBelow_eq: "pushUpBelow i to acc = acc @ [i..to - 1]"
proof (induction i to acc rule: pushUpBelow.induct)
  case (1 i to acc)
  show ?case
  proof (cases "i < to")
    case True
    then show ?thesis using 1 by (subst pushUpBelow.simps) (simp add: upto_rec1)
  next
    case False
    then show ?thesis by (subst pushUpBelow.simps) simp
  qed
qed

lemmas directions =
  TagDirection_Forward_def TagDirection_Reverse_def TagDirection_PingPong_def
  TagDirection_PingPongReverse_def

lemma playbackOrder_Forward:
  "direction t = TagDirection_Forward \<Longrightarrow>
   playbackOrder (resolveTagFrameRange t) = [fromFrame t..toFrame t]"
  by (simp add: resolveTagFrameRange_def Let_def pushUpTo_eq)

lemma playbackOrder_Reverse:
  "direction t = TagDirection_Reverse \<Longrightarrow>
   playbackOrder (resolveTagFrameRange t) = rev [fromFrame t..toFrame t]"
  by (simp add: resolveTagFrameRange_def Let_def pushDownTo_eq directions)

lemma playbackOrder_PingPong:
  "direction t = TagDirection_PingPong \<Longrightarrow>
   playbackOrder (resolveTagFrameRange t) =
     [fromFrame t..toFrame t] @ rev [fromFrame t + 1..toFrame t - 1]"
  by (simp add: resolveTagFrameRange_def Let_def pushUpTo_eq pushDownAbove_eq directions)

lemma playbackOrder_PingPongReverse:
  "direction t = TagDirection_PingPongReverse \<Longrightarrow>
   playbackOrder (resolveTagFrameRange t) =
     rev [fromFrame t..toFrame t] @ [fromFrame t + 1..toFrame t - 1]"
  by (simp add: resolveTagFrameRange_def Let_def pushDownTo_eq pushUpBelow_eq directions)


lemma length_upto_int: "int (length [i..j]) = (if i \<le> j then j - i + 1 else 0)"
  by simp

lemma playbackOrder_length_one_way:
  assumes "fromFrame t \<le> toFrame t"
    and "direction t = TagDirection_Forward \<or> direction t = TagDirection_Reverse"
  shows "int (length (playbackOrder (resolveTagFrameRange t))) = toFrame t - fromFrame t + 1"
proof -
  from assms(2) have "length (playbackOrder (resolveTagFrameRange t)) = length [fromFrame t..toFrame t]"
    by (elim disjE) (simp_all only: playbackOrder_Forward playbackOrder_Reverse length_rev)
  with assms(1) show ?thesis by simp
qed

lemma playbackOrder_length_ping_pong:
  assumes "fromFrame t < toFrame t"
    and "direction t = TagDirection_PingPong \<or> direction t = TagDirection_PingPongReverse"
  shows "int (length (playbackOrder (resolveTagFrameRange t))) = 2 * (toFrame t - fromFrame t)"
proof -
  from assms(2) have "length (playbackOrder (resolveTagFrameRange t)) =
      length [fromFrame t..toFrame t] + length [fromFrame t + 1..toFrame t - 1]"
    by (elim disjE)
      (simp_all only: playbackOrder_PingPong playbackOrder_PingPongReverse length_rev length_append)
  with assms(1) show ?thesis by simp
qed

lemma playbackOrder_length_single:
  assumes "fromFrame t = toFrame t"
    and "direction t = TagDirection_Forward \<or> direction t = TagDirection_Reverse
      \<or> direction t = TagDirection_PingPong \<or> direction t = TagDirection_PingPongReverse"
  shows "length (playbackOrder (resolveTagFrameRange t)) = 1"
proof -
  from assms(2) have "length (playbackOrder (resolveTagFrameRange t)) =
      length [fromFrame t..toFrame t]
      \<or> length (playbackOrder (resolveTagFrameRange t)) =
      length [fromFrame t..toFrame t] + length [fromFrame t + 1..toFrame t - 1]"
    by (elim disjE)
      (simp_all only: playbackOrder_Forward playbackOrder_Reverse
        playbackOrder_PingPong playbackOrder_PingPongReverse length_rev length_append simp_thms)
  with assms(1) show ?thesis by auto
qed

text \<open>
  C3: for every tag with \<open>fromFrame \<le> toFrame\<close>, \<open>resolveTagFrameRange\<close> returns the
  playback order of its direction (Forward: from..to ascending; Reverse: to..from descending;
  PingPong: from..to then to-1..from+1; PingPongReverse: to..from then from+1..to-1), so its
  length is to-from+1 for Forward and Reverse, 2(to-from) for the ping-pong directions when
  to > from, and 1 when from = to.
\<close>

theorem resolveTagFrameRange_playbackOrder:
  assumes "fromFrame t \<le> toFrame t"
  shows "(direction t = TagDirection_Forward \<longrightarrow>
            playbackOrder (resolveTagFrameRange t) = [fromFrame t..toFrame t])
       \<and> (direction t = TagDirection_Reverse \<longrightarrow>
            playbackOrder (resolveTagFrameRange t) = rev [fromFrame t..toFrame t])
       \<and> (direction t = TagDirection_PingPong \<longrightarrow>
            playbackOrder (resolveTagFrameRange t) =
              [fromFrame t..toFrame t] @ rev [fromFrame t + 1..toFrame t - 1])
       \<and> (direction t = TagDirection_PingPongReverse \<longrightarrow>
            playbackOrder (resolveTagFrameRange t) =
              rev [fromFrame t..toFrame t] @ [fromFrame t + 1..toFrame t - 1])
       \<and> (direction t = TagDirection_Forward \<or> direction t = TagDirection_Reverse \<longrightarrow>
            int (length (playbackOrder (resolveTagFrameRange t))) = toFrame t - fromFrame t + 1)
       \<and> ((direction t = TagDirection_PingPong \<or> direction t = TagDirection_PingPongReverse)
            \<and> fromFrame t < toFrame t \<longrightarrow>
            int (length (playbackOrder (resolveTagFrameRange t))) = 2 * (toFrame t - fromFrame t))
       \<and> ((direction t = TagDirection_Forward \<or> direction t = TagDirection_Reverse
             \<or> direction t = TagDirection_PingPong \<or> direction t = TagDirection_PingPongReverse)
            \<and> fromFrame t = toFrame t \<longrightarrow>
            length (playbackOrder (resolveTagFrameRange t)) = 1)"
  using assms playbackOrder_Forward [of t] playbackOrder_Reverse [of t]
    playbackOrder_PingPong [of t] playbackOrder_PingPongReverse [of t]
    playbackOrder_length_one_way [of t] playbackOrder_length_ping_pong [of t]
    playbackOrder_length_single [of t]
  by blast

lemma upto_0_2: "[0..2::int] = [0, 1, 2]" "[1..1::int] = [1]"
  by (simp_all add: upto_rec1)

theorem resolveTagFrameRange_playbackOrder_witness:
  "playbackOrder (resolveTagFrameRange (tag02 TagDirection_PingPong)) = [0, 1, 2, 1]
   \<and> int (length (playbackOrder (resolveTagFrameRange (tag02 TagDirection_PingPong)))) = 4"
proof -
  have d: "direction (tag02 TagDirection_PingPong) = TagDirection_PingPong"
    and f: "fromFrame (tag02 TagDirection_PingPong) = 0"
    and t: "toFrame (tag02 TagDirection_PingPong) = 2"
    by (simp_all add: tag02_def)
  have le: "fromFrame (tag02 TagDirection_PingPong) \<le> toFrame (tag02 TagDirection_PingPong)"
    by (simp add: f t)
  from resolveTagFrameRange_playbackOrder [OF le] d
  have "playbackOrder (resolveTagFrameRange (tag02 TagDirection_PingPong)) =
      [fromFrame (tag02 TagDirection_PingPong)..toFrame (tag02 TagDirection_PingPong)]
      @ rev [fromFrame (tag02 TagDirection_PingPong) + 1..toFrame (tag02 TagDirection_PingPong) - 1]"
    by blast
  then have "playbackOrder (resolveTagFrameRange (tag02 TagDirection_PingPong)) = [0, 1, 2, 1]"
    by (simp add: f t upto_0_2)
  then show ?thesis by simp
qed

subsection \<open>Tile values\<close>

lemma js_and_word: "word_of_int (js_and a b) = (word_of_int a :: 32 word) AND word_of_int b"
  by (simp add: js_and_def)

lemma js_or_word: "word_of_int (js_or a b) = (word_of_int a :: 32 word) OR word_of_int b"
  by (simp add: js_or_def)

lemma js_and_eq_0: "js_and a b = 0 \<longleftrightarrow> (word_of_int a :: 32 word) AND word_of_int b = 0"
  by (simp add: js_and_def signed_eq_0_iff)

lemma encode_decode_word:
  "word_of_int (encodeTileValue (decodeTileValue v m) m) =
     ((((word_of_int v :: 32 word) AND word_of_int (tileIdMask m))
        OR (if word_of_int v AND (word_of_int (xFlipMask m) :: 32 word) \<noteq> 0
            then word_of_int (xFlipMask m) else 0))
        OR (if word_of_int v AND (word_of_int (yFlipMask m) :: 32 word) \<noteq> 0
            then word_of_int (yFlipMask m) else 0))
        OR (if word_of_int v AND (word_of_int (rotationMask m) :: 32 word) \<noteq> 0
            then word_of_int (rotationMask m) else 0)"
  by (simp add: encodeTileValue_def decodeTileValue_def Let_def js_or_word js_and_word
      js_and_eq_0)

lemma encode_is_sint:
  "encodeTileValue t m = sint (word_of_int (encodeTileValue t m) :: 32 word)"
  by (simp add: encodeTileValue_def Let_def js_or_def js_and_def)

text \<open>
  C4 as stated fails twice over. A flip or rotation mask of several bits is written back
  whole when the value has only one of its bits; and the result of \<open>|\<close> is a signed
  32-bit number, so a value with bit 31 set comes back negative.
\<close>

theorem encodeTileValue_decodeTileValue_counterexample:
  "encodeTileValue (decodeTileValue 0x10000000 wideFlipMasks) wideFlipMasks \<noteq> 0x10000000
   \<and> encodeTileValue (decodeTileValue 0x80000000 stdMasks) stdMasks \<noteq> 0x80000000"
  by (simp add: encodeTileValue_def decodeTileValue_def wideFlipMasks_def stdMasks_def
      js_and_def js_or_def)

text \<open>
  C4, amended: for every tile value \<open>v\<close> and masks \<open>m\<close> such that the set bits of
  \<open>v\<close> lie within the union of the four masks and \<open>v\<close> has all or none of the bits of
  each of the three flag masks (as when each flag mask is a single bit),
  \<open>encodeTileValue (decodeTileValue v m) m\<close> is \<open>v\<close> read as a signed 32-bit integer: the
  same 32 bits, and \<open>v\<close> itself when \<open>v\<close> is below \<open>2^31\<close>.
\<close>

theorem encodeTileValue_decodeTileValue:
  fixes v :: int and m :: tilemapMasks
  defines "V \<equiv> (word_of_int v :: 32 word)"
    and "T \<equiv> (word_of_int (tileIdMask m) :: 32 word)"
    and "X \<equiv> (word_of_int (xFlipMask m) :: 32 word)"
    and "Y \<equiv> (word_of_int (yFlipMask m) :: 32 word)"
    and "R \<equiv> (word_of_int (rotationMask m) :: 32 word)"
  assumes within: "V AND NOT (T OR X OR Y OR R) = 0"
    and x: "V AND X = 0 \<or> V AND X = X"
    and y: "V AND Y = 0 \<or> V AND Y = Y"
    and r: "V AND R = 0 \<or> V AND R = R"
  shows "encodeTileValue (decodeTileValue v m) m = sint V
       \<and> (word_of_int (encodeTileValue (decodeTileValue v m) m) :: 32 word) = V
       \<and> (- (2 ^ 31) \<le> v \<and> v < 2 ^ 31 \<longrightarrow> encodeTileValue (decodeTileValue v m) m = v)"
proof -
  have fx: "(if V AND X \<noteq> 0 then X else 0) = V AND X" using x by auto
  have fy: "(if V AND Y \<noteq> 0 then Y else 0) = V AND Y" using y by auto
  have fr: "(if V AND R \<noteq> 0 then R else 0) = V AND R" using r by auto
  have "word_of_int (encodeTileValue (decodeTileValue v m) m) =
      (((V AND T) OR (V AND X)) OR (V AND Y)) OR (V AND R)"
    unfolding encode_decode_word V_def [symmetric] T_def [symmetric] X_def [symmetric]
      Y_def [symmetric] R_def [symmetric] fx fy fr ..
  also have "\<dots> = V AND (T OR X OR Y OR R)"
    by (simp add: bit.conj_disj_distrib ac_simps)
  also have "\<dots> = V"
  proof (rule bit_word_eqI)
    fix n assume n: "n < LENGTH(32)"
    from within have "bit (V AND NOT (T OR X OR Y OR R)) n = bit (0 :: 32 word) n" by simp
    with n show "bit (V AND (T OR X OR Y OR R)) n = bit V n"
      by (auto simp: bit_and_iff bit_not_iff bit_or_iff)
  qed
  finally have w: "word_of_int (encodeTileValue (decodeTileValue v m) m) = V" .
  have 1: "encodeTileValue (decodeTileValue v m) m = sint V"
    using encode_is_sint [of "decodeTileValue v m" m] w by simp
  have 2: "sint V = v" if "- (2 ^ 31) \<le> v" "v < 2 ^ 31"
    unfolding V_def using that by (simp add: sint_sbintrunc' signed_take_bit_int_eq_self)
  show ?thesis using 1 2 w by simp
qed

theorem encodeTileValue_decodeTileValue_witness:
  "encodeTileValue (decodeTileValue 0x20000064 stdMasks) stdMasks = 0x20000064
   \<and> encodeTileValue (decodeTileValue 0x80000000 stdMasks) stdMasks = - 0x80000000"
proof -
  have a: "encodeTileValue (decodeTileValue 0x20000064 stdMasks) stdMasks = 0x20000064"
    using encodeTileValue_decodeTileValue [of "0x20000064" stdMasks]
    by (simp add: stdMasks_def)
  have b: "encodeTileValue (decodeTileValue 0x80000000 stdMasks) stdMasks = - 0x80000000"
    using encodeTileValue_decodeTileValue [of "0x80000000" stdMasks]
    by (simp add: stdMasks_def)
  from a b show ?thesis by simp
qed

subsection \<open>Linked cels\<close>

lemma resolveLinkedCel_self_link:
  "resolveLinkedCel stack (fileOfFrames [[selfLinked]]) selfLinked = Inl (Error StackExhausted)"
proof (induction stack)
  case 0
  show ?case by simp
next
  case (Suc stack)
  then show ?case by (simp add: selfLinked_def fileOfFrames_def baseOnLayer_def)
qed

text \<open>
  C5 as stated fails: a decoded file may hold a cel that links to itself (or a cycle of
  links); on it \<open>resolveLinkedCel\<close> calls itself until the stack is exhausted, whatever
  room the stack has, and the error is a RangeError, not INVALID_LINKED_CEL.
\<close>

theorem resolveLinkedCel_self_link_counterexample:
  "\<forall>stack. resolveLinkedCel stack (fileOfFrames [[selfLinked]]) selfLinked
      = Inl (Error StackExhausted)"
  by (simp add: resolveLinkedCel_self_link)

lemma noForwardLinks_nth:
  assumes "noForwardLinks file" "i < length (frames file)" "LinkedCel b l \<in> set (cels (frames file ! i))"
  shows "l < 0 \<or> l \<ge> int (length (frames file)) \<or> l < int i"
proof -
  from assms(2) have "(i, frames file ! i) \<in> set (enumerate 0 (frames file))"
    by (simp add: in_set_enumerate_eq)
  with assms(1,3) show ?thesis
    by (fastforce simp: noForwardLinks_def list_all_iff)
qed

lemmas celType_values = CelType_Linked_def CelType_RawImage_def CelType_CompressedImage_def
  CelType_CompressedTilemap_def

lemma resolve_not_linked:
  "cel_type c \<noteq> CelType_Linked \<Longrightarrow> resolveLinkedCel (Suc stack) file c = Inr c"
  by (cases c) (simp_all add: CelType_Linked_def)

lemma resolve_outcomes:
  "(\<exists>c'. resolveLinkedCel stack file c = Inr c' \<and> cel_type c' \<noteq> CelType_Linked)
   \<or> resolveLinkedCel stack file c = Inl (AseFormatError INVALID_LINKED_CEL)
   \<or> resolveLinkedCel stack file c = Inl (Error StackExhausted)"
proof (induction stack arbitrary: c)
  case 0
  show ?case by simp
next
  case (Suc stack)
  show ?case
  proof (cases c)
    case (LinkedCel b l)
    show ?thesis
    proof (cases "find (\<lambda>c'. layerIndex (cel_base c') = layerIndex b) (cels (frames file ! nat l))")
      case None
      then show ?thesis using LinkedCel by simp
    next
      case (Some c')
      with Suc [of c'] show ?thesis using LinkedCel by auto
    qed
  qed (simp_all add: celType_values)
qed

lemma resolve_more_stack:
  "resolveLinkedCel stack file c \<noteq> Inl (Error StackExhausted) \<Longrightarrow>
   resolveLinkedCel (stack + k) file c = resolveLinkedCel stack file c"
proof (induction stack arbitrary: c)
  case 0
  then show ?case by simp
next
  case (Suc stack)
  show ?case
  proof (cases c)
    case (LinkedCel b l)
    show ?thesis
    proof (cases "find (\<lambda>c'. layerIndex (cel_base c') = layerIndex b) (cels (frames file ! nat l))")
      case None
      then show ?thesis using LinkedCel by simp
    next
      case (Some c')
      show ?thesis
      proof (cases "l < 0 \<or> l \<ge> int (length (frames file))")
        case True
        then show ?thesis using LinkedCel by simp
      next
        case False
        with Suc.prems LinkedCel Some
        have "resolveLinkedCel stack file c' \<noteq> Inl (Error StackExhausted)" by simp
        from Suc.IH [OF this] show ?thesis using LinkedCel Some False by simp
      qed
    qed
  qed simp_all
qed

lemma resolve_in_frame:
  assumes nf: "noForwardLinks file"
  shows "i < length (frames file) \<Longrightarrow> c \<in> set (cels (frames file ! i)) \<Longrightarrow> i < stack \<Longrightarrow>
         resolveLinkedCel stack file c \<noteq> Inl (Error StackExhausted)"
proof (induction i arbitrary: c stack rule: less_induct)
  case (less i)
  from less.prems(3) obtain stack' where st: "stack = Suc stack'" and i': "i \<le> stack'"
    by (cases stack) auto
  show ?case
  proof (cases c)
    case (LinkedCel b l)
    show ?thesis
    proof (cases "l < 0 \<or> l \<ge> int (length (frames file))")
      case True
      then show ?thesis using LinkedCel st by simp
    next
      case False
      with noForwardLinks_nth [OF nf less.prems(1)] less.prems(2) LinkedCel
      have li: "l < int i" by blast
      from False have l0: "0 \<le> l" "nat l < length (frames file)" by auto
      show ?thesis
      proof (cases "find (\<lambda>c'. layerIndex (cel_base c') = layerIndex b) (cels (frames file ! nat l))")
        case None
        then show ?thesis using LinkedCel False st by simp
      next
        case (Some c')
        then have "c' \<in> set (cels (frames file ! nat l))"
          by (auto simp: find_Some_iff)
        moreover have "nat l < i" using li l0 by linarith
        moreover have "nat l < stack'" using \<open>nat l < i\<close> i' by linarith
        ultimately have "resolveLinkedCel stack' file c' \<noteq> Inl (Error StackExhausted)"
          using less.IH [of "nat l" c' stack'] l0 by blast
        then show ?thesis using LinkedCel False Some st by simp
      qed
    qed
  qed (simp_all add: st)
qed

lemma resolve_backward_link:
  assumes nf: "noForwardLinks file" and c: "c = LinkedCel b l" and st: "nat l + 2 \<le> stack"
  shows "resolveLinkedCel stack file c \<noteq> Inl (Error StackExhausted)"
proof -
  from st obtain stack' where s: "stack = Suc stack'" and l': "nat l < stack'"
    by (cases stack) auto
  show ?thesis
  proof (cases "l < 0 \<or> l \<ge> int (length (frames file))")
    case True
    then show ?thesis using c s by simp
  next
    case False
    then have l0: "nat l < length (frames file)" by auto
    show ?thesis
    proof (cases "find (\<lambda>c'. layerIndex (cel_base c') = layerIndex b) (cels (frames file ! nat l))")
      case None
      then show ?thesis using c False s by simp
    next
      case (Some c')
      then have "c' \<in> set (cels (frames file ! nat l))" by (auto simp: find_Some_iff)
      from resolve_in_frame [OF nf l0 this l']
      show ?thesis using c False Some s by simp
    qed
  qed
qed

text \<open>
  C5, amended: for every file, every cel and every room \<open>stack\<close> of the call stack,
  \<open>resolveLinkedCel\<close> ends in one of three ways: it returns a cel that is not Linked, it
  fails with INVALID_LINKED_CEL, or it fails with a RangeError because the chain of links
  is longer than the stack has room for; with no room it fails so at once. With room for a
  call, a cel that is not Linked is returned unchanged; a Linked cel fails with
  INVALID_LINKED_CEL when its frame index is out of range or the target frame has no cel of
  its layer, and otherwise its result is that of the first cel of that layer in the target
  frame, resolved with one call less of room (so INVALID_LINKED_CEL arises exactly when a
  link of the chain is broken in one of these two ways before the stack runs out). An
  outcome other than the RangeError is the same with any more room. In a file in which no
  linked cel links to its own or a later frame (the validator's FORWARD_LINKED_CEL check), a
  cel linked to frame \<open>l\<close> gives no RangeError when the stack has room for \<open>l + 2\<close> calls.
\<close>

theorem resolveLinkedCel_outcomes:
  "((\<exists>c'. resolveLinkedCel stack file c = Inr c' \<and> cel_type c' \<noteq> CelType_Linked)
      \<or> resolveLinkedCel stack file c = Inl (AseFormatError INVALID_LINKED_CEL)
      \<or> resolveLinkedCel stack file c = Inl (Error StackExhausted))
   \<and> resolveLinkedCel 0 file c = Inl (Error StackExhausted)
   \<and> (cel_type c \<noteq> CelType_Linked \<longrightarrow> resolveLinkedCel (Suc stack) file c = Inr c)
   \<and> (\<forall>b l. c = LinkedCel b l \<longrightarrow>
        (if l < 0 \<or> l \<ge> int (length (frames file))
         then resolveLinkedCel (Suc stack) file c = Inl (AseFormatError INVALID_LINKED_CEL)
         else case find (\<lambda>c'. layerIndex (cel_base c') = layerIndex b)
                     (cels (frames file ! nat l)) of
                None \<Rightarrow> resolveLinkedCel (Suc stack) file c
                          = Inl (AseFormatError INVALID_LINKED_CEL)
              | Some c' \<Rightarrow> resolveLinkedCel (Suc stack) file c = resolveLinkedCel stack file c'))
   \<and> (resolveLinkedCel stack file c \<noteq> Inl (Error StackExhausted) \<and> stack \<le> stack'
        \<longrightarrow> resolveLinkedCel stack' file c = resolveLinkedCel stack file c)
   \<and> (noForwardLinks file \<and> c = LinkedCel b0 l0 \<and> nat l0 + 2 \<le> stack
        \<longrightarrow> resolveLinkedCel stack file c \<noteq> Inl (Error StackExhausted))"
proof (intro conjI impI allI)
  show "(\<exists>c'. resolveLinkedCel stack file c = Inr c' \<and> cel_type c' \<noteq> CelType_Linked)
      \<or> resolveLinkedCel stack file c = Inl (AseFormatError INVALID_LINKED_CEL)
      \<or> resolveLinkedCel stack file c = Inl (Error StackExhausted)"
    by (rule resolve_outcomes)
  show "resolveLinkedCel 0 file c = Inl (Error StackExhausted)" by simp
  show "resolveLinkedCel (Suc stack) file c = Inr c" if "cel_type c \<noteq> CelType_Linked"
    using that by (rule resolve_not_linked)
  show "if l < 0 \<or> l \<ge> int (length (frames file))
         then resolveLinkedCel (Suc stack) file c = Inl (AseFormatError INVALID_LINKED_CEL)
         else case find (\<lambda>c'. layerIndex (cel_base c') = layerIndex b)
                     (cels (frames file ! nat l)) of
                None \<Rightarrow> resolveLinkedCel (Suc stack) file c
                          = Inl (AseFormatError INVALID_LINKED_CEL)
              | Some c' \<Rightarrow> resolveLinkedCel (Suc stack) file c = resolveLinkedCel stack file c'"
    if "c = LinkedCel b l" for b l
    using that by (simp split: option.splits)
  show "resolveLinkedCel stack' file c = resolveLinkedCel stack file c"
    if "resolveLinkedCel stack file c \<noteq> Inl (Error StackExhausted) \<and> stack \<le> stack'"
    using that resolve_more_stack [of stack "file" c "stack' - stack"] by simp
  show "resolveLinkedCel stack file c \<noteq> Inl (Error StackExhausted)"
    if "noForwardLinks file \<and> c = LinkedCel b0 l0 \<and> nat l0 + 2 \<le> stack"
    using that resolve_backward_link [of "file" c b0 l0 stack] by blast
qed

theorem resolveLinkedCel_outcomes_witness:
  "noForwardLinks (fileOfFrames [[rawCel], [linkedToFirst], [linkedToSecond]])
   \<and> resolveLinkedCel 3 (fileOfFrames [[rawCel], [linkedToFirst], [linkedToSecond]]) linkedToSecond
       = Inr rawCel
   \<and> resolveLinkedCel 4 (fileOfFrames [[rawCel], [linkedToFirst], [linkedToSecond]]) linkedToSecond
       = Inr rawCel
   \<and> resolveLinkedCel 2 (fileOfFrames [[rawCel], [linkedToFirst], [linkedToSecond]]) linkedToSecond
       = Inl (Error StackExhausted)
   \<and> \<not> noForwardLinks (fileOfFrames [[linkedToSecond], [rawCel]])
   \<and> resolveLinkedCel 2 (fileOfFrames [[linkedToSecond], [rawCel]]) linkedToSecond = Inr rawCel
   \<and> resolveLinkedCel 1 (fileOfFrames [[rawCel]]) linkedToThird
       = Inl (AseFormatError INVALID_LINKED_CEL)
   \<and> cel_type rawCel \<noteq> CelType_Linked
   \<and> resolveLinkedCel 1 (fileOfFrames [[rawCel], [linkedToFirst], [linkedToSecond]]) rawCel
       = Inr rawCel"
proof -
  let ?f = "fileOfFrames [[rawCel], [linkedToFirst], [linkedToSecond]]"
  have nf: "noForwardLinks ?f"
    by (simp add: noForwardLinks_def fileOfFrames_def rawCel_def linkedToFirst_def
        linkedToSecond_def)
  have raw: "cel_type rawCel \<noteq> CelType_Linked"
    by (simp add: rawCel_def celType_values)
  have ev: "resolveLinkedCel 3 ?f linkedToSecond = Inr rawCel"
    by (simp add: eval_nat_numeral fileOfFrames_def rawCel_def linkedToFirst_def
        linkedToSecond_def baseOnLayer_def)
  have "resolveLinkedCel 3 ?f linkedToSecond \<noteq> Inl (Error StackExhausted)"
    using resolveLinkedCel_outcomes [of 3 ?f linkedToSecond 4 "baseOnLayer 0" 1] nf
    by (simp add: linkedToSecond_def)
  then have more: "resolveLinkedCel 4 ?f linkedToSecond = resolveLinkedCel 3 ?f linkedToSecond"
    using resolveLinkedCel_outcomes [of 3 ?f linkedToSecond 4 "baseOnLayer 0" 1] by simp
  have short: "resolveLinkedCel 2 ?f linkedToSecond = Inl (Error StackExhausted)"
    by (simp add: eval_nat_numeral fileOfFrames_def rawCel_def linkedToFirst_def
        linkedToSecond_def baseOnLayer_def)
  have fw: "\<not> noForwardLinks (fileOfFrames [[linkedToSecond], [rawCel]])"
    by (simp add: noForwardLinks_def fileOfFrames_def rawCel_def linkedToSecond_def)
  have fwr: "resolveLinkedCel 2 (fileOfFrames [[linkedToSecond], [rawCel]]) linkedToSecond
      = Inr rawCel"
    by (simp add: eval_nat_numeral fileOfFrames_def rawCel_def linkedToSecond_def
        baseOnLayer_def)
  have bad: "resolveLinkedCel 1 (fileOfFrames [[rawCel]]) linkedToThird
      = Inl (AseFormatError INVALID_LINKED_CEL)"
    by (simp add: fileOfFrames_def linkedToThird_def)
  have same: "resolveLinkedCel 1 ?f rawCel = Inr rawCel"
    using resolveLinkedCel_outcomes [of 0 ?f rawCel] raw by simp
  from nf raw ev more short fw fwr bad same show ?thesis by simp
qed

subsection \<open>Slice lookup\<close>

lemma applicableKey_takeWhile:
  "applicableKey ks f acc =
     (if takeWhile (\<lambda>k. frameIndex k \<le> f) ks = [] then acc
      else Some (last (takeWhile (\<lambda>k. frameIndex k \<le> f) ks)))"
  by (induction ks arbitrary: acc) auto

lemma sorted_takeWhile_filter:
  "sorted (map frameIndex ks) \<Longrightarrow>
   takeWhile (\<lambda>k. frameIndex k \<le> f) ks = filter (\<lambda>k. frameIndex k \<le> f) ks"
proof (induction ks)
  case Nil
  then show ?case by simp
next
  case (Cons k ks)
  show ?case
  proof (cases "frameIndex k \<le> f")
    case True
    with Cons show ?thesis by simp
  next
    case False
    with Cons.prems have "\<forall>k' \<in> set ks. \<not> frameIndex k' \<le> f" by auto
    then have "filter (\<lambda>k. frameIndex k \<le> f) ks = []" by (simp add: filter_empty_conv)
    with False show ?thesis by simp
  qed
qed

lemma takeWhile_length_mono:
  "f1 \<le> f2 \<Longrightarrow>
   length (takeWhile (\<lambda>k. frameIndex k \<le> f1) ks) \<le> length (takeWhile (\<lambda>k. frameIndex k \<le> (f2::int)) ks)"
  by (induction ks) auto

lemma last_takeWhile_nth:
  "takeWhile P ks \<noteq> [] \<Longrightarrow> last (takeWhile P ks) = ks ! (length (takeWhile P ks) - 1)"
  by (metis last_conv_nth takeWhile_nth diff_less length_greater_0_conv zero_less_one)

lemma applicableKey_None:
  "applicableKey ks f None = None \<longleftrightarrow> length (takeWhile (\<lambda>k. frameIndex k \<le> f) ks) = 0"
  by (simp add: applicableKey_takeWhile)

lemma applicableKey_Some_nth:
  "applicableKey ks f None = Some k \<Longrightarrow>
   0 < length (takeWhile (\<lambda>k. frameIndex k \<le> f) ks) \<and>
   k = ks ! (length (takeWhile (\<lambda>k. frameIndex k \<le> f) ks) - 1)"
  by (auto simp: applicableKey_takeWhile last_takeWhile_nth split: if_splits)

lemma getSliceAtFrame_applicableKey:
  assumes "slices file = Some ss" "find (\<lambda>s. slice_name s = n) ss = Some s"
  shows "getSliceAtFrame file n f =
     map_option (\<lambda>k. \<lparr> rsk_name = n, rsk_frameIndex = frameIndex k,
                        rsk_x = key_x k, rsk_y = key_y k,
                        rsk_width = key_width k, rsk_height = key_height k,
                        rsk_center = center k, rsk_pivot = pivot k \<rparr>) (applicableKey (keys s) f None)"
  using assms by (cases "keys s") (auto simp: getSliceAtFrame_def split: option.splits)

lemma sorted_map_last_greatest:
  "sorted (map g xs) \<Longrightarrow> x \<in> set xs \<Longrightarrow> (g x :: int) \<le> g (last xs)"
  by (induction xs) (auto split: if_splits)

lemma getSliceAtFrame_sorted_keys:
  assumes sl: "slices file = Some ss" and fd: "find (\<lambda>s. slice_name s = n) ss = Some s"
    and srt: "sorted (map frameIndex (keys s))"
  shows "((\<forall>k \<in> set (keys s). \<not> frameIndex k \<le> f) \<longrightarrow> getSliceAtFrame file n f = None)
     \<and> ((\<exists>k \<in> set (keys s). frameIndex k \<le> f) \<longrightarrow>
          (\<exists>k \<in> set (keys s).
              getSliceAtFrame file n f =
                Some \<lparr> rsk_name = n, rsk_frameIndex = frameIndex k,
                       rsk_x = key_x k, rsk_y = key_y k,
                       rsk_width = key_width k, rsk_height = key_height k,
                       rsk_center = center k, rsk_pivot = pivot k \<rparr>
              \<and> frameIndex k \<le> f
              \<and> (\<forall>k' \<in> set (keys s). frameIndex k' \<le> f \<longrightarrow> frameIndex k' \<le> frameIndex k)))
     \<and> (f \<le> f' \<longrightarrow> (\<forall>r. getSliceAtFrame file n f = Some r \<longrightarrow>
          (\<exists>i i'. i \<le> i' \<and> i' < length (keys s)
              \<and> r = \<lparr> rsk_name = n, rsk_frameIndex = frameIndex (keys s ! i),
                      rsk_x = key_x (keys s ! i), rsk_y = key_y (keys s ! i),
                      rsk_width = key_width (keys s ! i), rsk_height = key_height (keys s ! i),
                      rsk_center = center (keys s ! i), rsk_pivot = pivot (keys s ! i) \<rparr>
              \<and> getSliceAtFrame file n f' =
                  Some \<lparr> rsk_name = n, rsk_frameIndex = frameIndex (keys s ! i'),
                         rsk_x = key_x (keys s ! i'), rsk_y = key_y (keys s ! i'),
                         rsk_width = key_width (keys s ! i'), rsk_height = key_height (keys s ! i'),
                         rsk_center = center (keys s ! i'), rsk_pivot = pivot (keys s ! i') \<rparr>
              \<and> frameIndex (keys s ! i) \<le> frameIndex (keys s ! i'))))"
proof (intro conjI impI allI)
  let ?P = "\<lambda>f k. frameIndex k \<le> f"
  let ?rk = "\<lambda>k. \<lparr> rsk_name = n, rsk_frameIndex = frameIndex k,
                        rsk_x = key_x k, rsk_y = key_y k,
                        rsk_width = key_width k, rsk_height = key_height k,
                        rsk_center = center k, rsk_pivot = pivot k \<rparr>"
  note g = getSliceAtFrame_applicableKey [OF sl fd]
  note tf = sorted_takeWhile_filter [OF srt]
  {
    assume "\<forall>k \<in> set (keys s). \<not> frameIndex k \<le> f"
    then have "filter (?P f) (keys s) = []" by (simp add: filter_empty_conv)
    then show "getSliceAtFrame file n f = None"
      by (simp add: g applicableKey_takeWhile tf)
  }
  {
    assume "\<exists>k \<in> set (keys s). frameIndex k \<le> f"
    then have ne: "filter (?P f) (keys s) \<noteq> []" by (auto simp: filter_empty_conv)
    let ?k = "last (filter (?P f) (keys s))"
    have mem: "?k \<in> set (filter (?P f) (keys s))" using ne by (rule last_in_set)
    have r: "getSliceAtFrame file n f = Some (?rk ?k)"
      using ne by (simp add: g applicableKey_takeWhile tf)
    have srt': "sorted (map frameIndex (filter (?P f) (keys s)))"
      using srt by (simp add: sorted_filter)
    have gr: "frameIndex k' \<le> frameIndex ?k" if "k' \<in> set (keys s)" "frameIndex k' \<le> f" for k'
      using sorted_map_last_greatest [OF srt', of k'] that by simp
    from mem r gr show "\<exists>k \<in> set (keys s).
              getSliceAtFrame file n f =
                Some \<lparr> rsk_name = n, rsk_frameIndex = frameIndex k,
                       rsk_x = key_x k, rsk_y = key_y k,
                       rsk_width = key_width k, rsk_height = key_height k,
                       rsk_center = center k, rsk_pivot = pivot k \<rparr>
              \<and> frameIndex k \<le> f
              \<and> (\<forall>k' \<in> set (keys s). frameIndex k' \<le> f \<longrightarrow> frameIndex k' \<le> frameIndex k)"
      by (intro bexI [of _ ?k]) auto
  }
  {
    fix r assume le: "f \<le> f'" and r: "getSliceAtFrame file n f = Some r"
    let ?m = "length (takeWhile (?P f) (keys s))" and ?m' = "length (takeWhile (?P f') (keys s))"
    from r obtain k where k: "applicableKey (keys s) f None = Some k" and rk: "r = ?rk k"
      by (auto simp: g)
    from applicableKey_Some_nth [OF k] have m: "0 < ?m" and kn: "k = keys s ! (?m - 1)" by auto
    have mm: "?m \<le> ?m'" using le by (rule takeWhile_length_mono)
    have ml: "?m' \<le> length (keys s)" by (rule length_takeWhile_le)
    have "0 < ?m'" using m mm by linarith
    then have ne: "takeWhile (?P f') (keys s) \<noteq> []" by simp
    have r': "getSliceAtFrame file n f' = Some (?rk (keys s ! (?m' - 1)))"
      using ne by (simp add: g applicableKey_takeWhile last_takeWhile_nth)
    have idx: "?m - 1 \<le> ?m' - 1" "?m' - 1 < length (keys s)" using m mm ml by linarith+
    have "frameIndex (keys s ! (?m - 1)) \<le> frameIndex (keys s ! (?m' - 1))"
      using sorted_nth_mono [OF srt, of "?m - 1" "?m' - 1"] idx by simp
    with rk kn r' idx
    show "\<exists>i i'. i \<le> i' \<and> i' < length (keys s)
              \<and> r = \<lparr> rsk_name = n, rsk_frameIndex = frameIndex (keys s ! i),
                      rsk_x = key_x (keys s ! i), rsk_y = key_y (keys s ! i),
                      rsk_width = key_width (keys s ! i), rsk_height = key_height (keys s ! i),
                      rsk_center = center (keys s ! i), rsk_pivot = pivot (keys s ! i) \<rparr>
              \<and> getSliceAtFrame file n f' =
                  Some \<lparr> rsk_name = n, rsk_frameIndex = frameIndex (keys s ! i'),
                         rsk_x = key_x (keys s ! i'), rsk_y = key_y (keys s ! i'),
                         rsk_width = key_width (keys s ! i'), rsk_height = key_height (keys s ! i'),
                         rsk_center = center (keys s ! i'), rsk_pivot = pivot (keys s ! i') \<rparr>
              \<and> frameIndex (keys s ! i) \<le> frameIndex (keys s ! i')"
      by blast
  }
qed


text \<open>
  C6: for a slice whose keys are sorted by frame index ascending and a query frame \<open>f\<close>,
  \<open>getSliceAtFrame\<close> returns none when no key has a frame index at most \<open>f\<close>, and
  otherwise the record of the slice's name and of the frame index, position, size, center
  and pivot of a key whose frame index is the greatest one at most \<open>f\<close>; and for
  \<open>f \<le> f'\<close> the key returned for \<open>f'\<close> stands at the same position in the slice's
  keys or later, with a frame index at least as great. The slice is the first one of the
  name; a file without slices or without a slice of the name gives none.
\<close>

theorem getSliceAtFrame_greatest_key:
  "(slices file = None \<longrightarrow> getSliceAtFrame file n f = None)
   \<and> (slices file = Some ss \<and> find (\<lambda>s. slice_name s = n) ss = None
        \<longrightarrow> getSliceAtFrame file n f = None)
   \<and> (slices file = Some ss \<and> find (\<lambda>s. slice_name s = n) ss = Some s
        \<and> sorted (map frameIndex (keys s)) \<longrightarrow>
     ((\<forall>k \<in> set (keys s). \<not> frameIndex k \<le> f) \<longrightarrow> getSliceAtFrame file n f = None)
          \<and> ((\<exists>k \<in> set (keys s). frameIndex k \<le> f) \<longrightarrow>
               (\<exists>k \<in> set (keys s).
                   getSliceAtFrame file n f =
                     Some \<lparr> rsk_name = n, rsk_frameIndex = frameIndex k,
                            rsk_x = key_x k, rsk_y = key_y k,
                            rsk_width = key_width k, rsk_height = key_height k,
                            rsk_center = center k, rsk_pivot = pivot k \<rparr>
                   \<and> frameIndex k \<le> f
                   \<and> (\<forall>k' \<in> set (keys s). frameIndex k' \<le> f \<longrightarrow> frameIndex k' \<le> frameIndex k)))
          \<and> (f \<le> f' \<longrightarrow> (\<forall>r. getSliceAtFrame file n f = Some r \<longrightarrow>
               (\<exists>i i'. i \<le> i' \<and> i' < length (keys s)
                   \<and> r = \<lparr> rsk_name = n, rsk_frameIndex = frameIndex (keys s ! i),
                           rsk_x = key_x (keys s ! i), rsk_y = key_y (keys s ! i),
                           rsk_width = key_width (keys s ! i), rsk_height = key_height (keys s ! i),
                           rsk_center = center (keys s ! i), rsk_pivot = pivot (keys s ! i) \<rparr>
                   \<and> getSliceAtFrame file n f' =
                       Some \<lparr> rsk_name = n, rsk_frameIndex = frameIndex (keys s ! i'),
                              rsk_x = key_x (keys s ! i'), rsk_y = key_y (keys s ! i'),
                              rsk_width = key_width (keys s ! i'), rsk_height = key_height (keys s ! i'),
                              rsk_center = center (keys s ! i'), rsk_pivot = pivot (keys s ! i') \<rparr>
                   \<and> frameIndex (keys s ! i) \<le> frameIndex (keys s ! i')))))"
proof (intro conjI)
  show "slices file = None \<longrightarrow> getSliceAtFrame file n f = None"
    by (simp add: getSliceAtFrame_def)
  show "slices file = Some ss \<and> find (\<lambda>s. slice_name s = n) ss = None
        \<longrightarrow> getSliceAtFrame file n f = None"
    by (simp add: getSliceAtFrame_def)
  show "slices file = Some ss \<and> find (\<lambda>s. slice_name s = n) ss = Some s
        \<and> sorted (map frameIndex (keys s)) \<longrightarrow>
     ((\<forall>k \<in> set (keys s). \<not> frameIndex k \<le> f) \<longrightarrow> getSliceAtFrame file n f = None)
          \<and> ((\<exists>k \<in> set (keys s). frameIndex k \<le> f) \<longrightarrow>
               (\<exists>k \<in> set (keys s).
                   getSliceAtFrame file n f =
                     Some \<lparr> rsk_name = n, rsk_frameIndex = frameIndex k,
                            rsk_x = key_x k, rsk_y = key_y k,
                            rsk_width = key_width k, rsk_height = key_height k,
                            rsk_center = center k, rsk_pivot = pivot k \<rparr>
                   \<and> frameIndex k \<le> f
                   \<and> (\<forall>k' \<in> set (keys s). frameIndex k' \<le> f \<longrightarrow> frameIndex k' \<le> frameIndex k)))
          \<and> (f \<le> f' \<longrightarrow> (\<forall>r. getSliceAtFrame file n f = Some r \<longrightarrow>
               (\<exists>i i'. i \<le> i' \<and> i' < length (keys s)
                   \<and> r = \<lparr> rsk_name = n, rsk_frameIndex = frameIndex (keys s ! i),
                           rsk_x = key_x (keys s ! i), rsk_y = key_y (keys s ! i),
                           rsk_width = key_width (keys s ! i), rsk_height = key_height (keys s ! i),
                           rsk_center = center (keys s ! i), rsk_pivot = pivot (keys s ! i) \<rparr>
                   \<and> getSliceAtFrame file n f' =
                       Some \<lparr> rsk_name = n, rsk_frameIndex = frameIndex (keys s ! i'),
                              rsk_x = key_x (keys s ! i'), rsk_y = key_y (keys s ! i'),
                              rsk_width = key_width (keys s ! i'), rsk_height = key_height (keys s ! i'),
                              rsk_center = center (keys s ! i'), rsk_pivot = pivot (keys s ! i') \<rparr>
                   \<and> frameIndex (keys s ! i) \<le> frameIndex (keys s ! i'))))"
    using getSliceAtFrame_sorted_keys [of "file" ss n s f f'] by blast
qed

theorem getSliceAtFrame_greatest_key_witness:
  "getSliceAtFrame hitboxFile (lit ''hitbox'') 1 =
     Some \<lparr> rsk_name = lit ''hitbox'', rsk_frameIndex = 0, rsk_x = 10, rsk_y = 0,
            rsk_width = 20, rsk_height = 10, rsk_center = None, rsk_pivot = None \<rparr>
   \<and> getSliceAtFrame hitboxFile (lit ''hitbox'') 5 =
     Some \<lparr> rsk_name = lit ''hitbox'', rsk_frameIndex = 2, rsk_x = 15, rsk_y = 0,
            rsk_width = 25, rsk_height = 10, rsk_center = None, rsk_pivot = None \<rparr>
   \<and> getSliceAtFrame hitboxFile (lit ''hitbox'') (- 1) = None
   \<and> getSliceAtFrame hitboxFile (lit ''hurtbox'') 1 = None
   \<and> getSliceAtFrame (fileOfFrames [[]]) (lit ''hitbox'') 1 = None"
proof -
  have sl: "slices hitboxFile = Some [hitbox]"
    by (simp add: hitboxFile_def fileOfFrames_def)
  have fd: "find (\<lambda>s. slice_name s = lit ''hitbox'') [hitbox] = Some hitbox"
    by (simp add: hitbox_def)
  have srt: "sorted (map frameIndex (keys hitbox))"
    by (simp add: hitbox_def keyAt_def)
  have ks: "set (keys hitbox) = {keyAt 0 10 20, keyAt 2 15 25}"
    by (simp add: hitbox_def)
  have a: "getSliceAtFrame hitboxFile (lit ''hitbox'') 1 =
     Some \<lparr> rsk_name = lit ''hitbox'', rsk_frameIndex = 0, rsk_x = 10, rsk_y = 0,
            rsk_width = 20, rsk_height = 10, rsk_center = None, rsk_pivot = None \<rparr>"
    using getSliceAtFrame_greatest_key [of hitboxFile "lit ''hitbox''" 1 "[hitbox]" hitbox 1]
      sl fd srt
    by (simp add: ks) (simp add: keyAt_def)
  have b: "getSliceAtFrame hitboxFile (lit ''hitbox'') (- 1) = None"
    using getSliceAtFrame_greatest_key
      [of hitboxFile "lit ''hitbox''" "- 1" "[hitbox]" hitbox "- 1"] sl fd srt
    by (simp add: ks) (simp add: keyAt_def)
  have c: "getSliceAtFrame hitboxFile (lit ''hitbox'') 5 =
     Some \<lparr> rsk_name = lit ''hitbox'', rsk_frameIndex = 2, rsk_x = 15, rsk_y = 0,
            rsk_width = 25, rsk_height = 10, rsk_center = None, rsk_pivot = None \<rparr>"
    using getSliceAtFrame_greatest_key [of hitboxFile "lit ''hitbox''" 5 "[hitbox]" hitbox 5]
      sl fd srt
    by (simp add: ks) (auto simp: keyAt_def)
  have d: "getSliceAtFrame hitboxFile (lit ''hurtbox'') 1 = None"
    using getSliceAtFrame_greatest_key [of hitboxFile "lit ''hurtbox''" 1 "[hitbox]"] sl
    by (simp add: hitbox_def lit_def)
  have e: "getSliceAtFrame (fileOfFrames [[]]) (lit ''hitbox'') 1 = None"
    using getSliceAtFrame_greatest_key [of "fileOfFrames [[]]" "lit ''hitbox''" 1]
    by (simp add: fileOfFrames_def)
  from a b c d e show ?thesis by simp
qed

subsection \<open>Frame header chunk counts\<close>

lemma le_bytes_0: "le_bytes 0 v = []"
  by (simp add: le_bytes_def)

lemma le_bytes_Suc: "le_bytes (Suc k) v = word_of_int v # le_bytes k (v div 256)"
proof -
  have "[0..<Suc k] = 0 # map Suc [0..<k]"
    by (simp add: upt_conv_Cons map_Suc_upt del: upt_Suc)
  then show ?thesis
    by (simp add: le_bytes_def comp_def zdiv_zmult2_eq del: upt_Suc)
qed

lemma le_bytes_numeral:
  "le_bytes 1 v = [word_of_int v]"
  "le_bytes 2 v = [word_of_int v, word_of_int (v div 256)]"
  "le_bytes 4 v = [word_of_int v, word_of_int (v div 256), word_of_int (v div 256 div 256),
     word_of_int (v div 256 div 256 div 256)]"
  "le_bytes 8 v = [word_of_int v, word_of_int (v div 256), word_of_int (v div 256 div 256),
     word_of_int (v div 256 div 256 div 256), word_of_int (v div 256 div 256 div 256 div 256),
     word_of_int (v div 256 div 256 div 256 div 256 div 256),
     word_of_int (v div 256 div 256 div 256 div 256 div 256 div 256),
     word_of_int (v div 256 div 256 div 256 div 256 div 256 div 256 div 256)]"
  by (simp_all add: eval_nat_numeral le_bytes_Suc le_bytes_0)

lemma uint_byte_of_int: "uint (word_of_int v :: byte) = v mod 256"
  by (simp add: uint_word_of_int)

lemma le_value_le_bytes: "le_value (le_bytes k v) = v mod 256 ^ k"
proof (induction k arbitrary: v)
  case 0
  then show ?case by (simp add: le_bytes_def)
next
  case (Suc k)
  have "le_value (le_bytes (Suc k) v) = v mod 256 + 256 * ((v div 256) mod 256 ^ k)"
    by (simp add: le_bytes_Suc Suc uint_byte_of_int)
  also have "\<dots> = v mod 256 ^ Suc k"
    by (simp add: zmod_zmult2_eq)
  finally show ?case .
qed

lemma length_le_bytes: "length (le_bytes k v) = k"
  by (simp add: le_bytes_def)

lemma encodeFrameHeader_fields:
  "encodeFrameHeader fs n d =
     le_bytes 4 fs @ le_bytes 2 ASE_FRAME_MAGIC
     @ le_bytes 2 (if n > 0xFFFE then 0xFFFF else n) @ le_bytes 2 d @ [0, 0] @ le_bytes 4 n"
  by (simp add: encodeFrameHeader_def w_u32_def w_u16_def w_zeros_def eval_nat_numeral)

text \<open>
  C2 as stated fails: for a chunk count of at most 0xFFFE the encoder does not set the
  new-chunk-count field to 0; it writes the count there as well. With one chunk the field
  (bytes 12 to 15 of the header) holds 1.
\<close>

theorem encodeFrameHeader_new_count_counterexample:
  "encodeFrameHeader 32 1 100 = [32, 0, 0, 0, 0xFA, 0xF1, 1, 0, 100, 0, 0, 0, 1, 0, 0, 0]
   \<and> le_value (take 4 (drop 12 (encodeFrameHeader 32 1 100))) \<noteq> 0"
  by (simp add: encodeFrameHeader_fields le_bytes_numeral ASE_FRAME_MAGIC_def)

text \<open>
  C2, amended: the frame header the encoder writes for a chunk count \<open>n\<close> (a length, so
  \<open>0 \<le> n < 2^32\<close>) is 16 bytes; its old-chunk-count field (bytes 6 and 7, little-endian)
  holds \<open>n\<close> when \<open>n \<le> 0xFFFE\<close> and 0xFFFF otherwise; its new-chunk-count field (bytes
  12 to 15) holds \<open>n\<close> in every case. A frame of either mode, built from the buffers of
  its chunks, starts with that header for the number of its buffers.
\<close>

theorem encodeFrameHeader_chunk_counts:
  assumes "0 \<le> n" "n < 2 ^ 32"
  shows "length (encodeFrameHeader fs n d) = 16
     \<and> le_value (take 2 (drop 6 (encodeFrameHeader fs n d))) = (if n \<le> 0xFFFE then n else 0xFFFF)
     \<and> le_value (take 4 (drop 12 (encodeFrameHeader fs n d))) = n
     \<and> take 16 (frameBuffer bufs d) =
         encodeFrameHeader (16 + (\<Sum>buf \<leftarrow> bufs. int (length buf))) (int (length bufs)) d"
proof -
  have old: "le_value (le_bytes 2 (if n > 0xFFFE then 0xFFFF else n)) = (if n \<le> 0xFFFE then n else 0xFFFF)"
    using assms by (simp add: le_value_le_bytes)
  have new: "le_value (le_bytes 4 n) = n"
    using assms by (simp add: le_value_le_bytes)
  have len: "length (encodeFrameHeader fs n d) = 16" for fs n d
    by (simp add: encodeFrameHeader_fields length_le_bytes)
  show ?thesis
    using old new len
    by (simp add: encodeFrameHeader_fields length_le_bytes frameBuffer_def Let_def)
qed

theorem encodeFrameHeader_chunk_counts_witness:
  "le_value (take 2 (drop 6 (encodeFrameHeader 32 1 100))) = 1
   \<and> le_value (take 4 (drop 12 (encodeFrameHeader 32 1 100))) = 1
   \<and> le_value (take 2 (drop 6 (encodeFrameHeader 16 70000 100))) = 0xFFFF
   \<and> le_value (take 4 (drop 12 (encodeFrameHeader 16 70000 100))) = 70000"
  using encodeFrameHeader_chunk_counts [of 1 32 100 "[]"]
    encodeFrameHeader_chunk_counts [of 70000 16 100 "[]"]
  by (simp del: take_all drop_all)

subsection \<open>Placeholders of unknown property types\<close>

lemma w_string_not_ase: "w_string pf s w \<noteq> Inl (AseFormatError c)"
  by (simp add: w_string_def Let_def)

lemma w_uuid_not_ase: "w_uuid s w \<noteq> Inl (AseFormatError c)"
  by (simp add: w_uuid_def Let_def)

lemma wbind_not_ase:
  "m \<noteq> Inl (AseFormatError c) \<Longrightarrow> (\<And>w. f w \<noteq> Inl (AseFormatError c)) \<Longrightarrow>
   wbind m f \<noteq> Inl (AseFormatError c)"
  by (cases m) (auto simp: wbind_def)

lemma encodePropertyValue_not_ase:
  "encodePropertyValue pf v t w \<noteq> Inl (AseFormatError c)"
  "encodeElements pf vs t w \<noteq> Inl (AseFormatError c)"
  "encodeEntries pf kvs w \<noteq> Inl (AseFormatError c)"
proof (induction pf v t w and pf vs t w and pf kvs w
    rule: encodePropertyValue_encodeElements_encodeEntries.induct)
  case (1 pf v t w)
  show ?case
    apply (subst encodePropertyValue.simps)
    apply (cases v)
    using 1 by (auto simp: w_string_not_ase w_uuid_not_ase split: list.splits)
next
  case (2 pf t w)
  show ?case by simp
next
  case (3 pf e es t w)
  show ?case
    using 3 by (simp add: wbind_not_ase)
next
  case (4 pf w)
  show ?case by simp
next
  case (5 pf k val kvs w)
  show ?case
    using 5 by (simp add: wbind_not_ase w_string_not_ase)
qed

lemma encodeProps_not_ase: "encodeProps pf ps w \<noteq> Inl (AseFormatError c)"
  by (induction pf ps w rule: encodeProps.induct)
    (simp_all add: wbind_not_ase w_string_not_ase encodePropertyValue_not_ase)

lemma encodeExtensions_not_ase: "encodeExtensions pf es w \<noteq> Inl (AseFormatError c)"
  by (induction pf es w rule: encodeExtensions.induct)
    (simp_all add: Let_def wbind_not_ase encodeProps_not_ase)

lemma encodeUserDataChunk_not_ase: "encodeUserDataChunk pf ud \<noteq> Inl (AseFormatError c)"
proof -
  have 1: "(if b then w_string pf s w else Inr w) \<noteq> Inl (AseFormatError c)" for b s w
    by (simp add: w_string_not_ase)
  have 2: "(case ud_properties ud of None \<Rightarrow> Inr w
            | Some properties \<Rightarrow> encodePropertiesMap pf properties w) \<noteq> Inl (AseFormatError c)" for w
    by (simp add: encodePropertiesMap_def encodeExtensions_not_ase split: option.splits)
  show ?thesis
    unfolding encodeUserDataChunk_def Let_def
    by (rule wbind_not_ase [OF 1 2])
qed

lemma encode_type_null: "encodePropertyValue pf v PropertyType_Null w = Inr w"
  by (subst encodePropertyValue.simps) simp

lemma encodeProps_placeholder:
  "encodeProps pf (ps @ (name, PUnknown t) # qs) w = encodeProps pf (ps @ (name, PNull) # qs) w"
proof (induction ps arbitrary: w)
  case Nil
  show ?case by (simp add: encode_type_null)
next
  case (Cons p ps)
  obtain n v where p: "p = (n, v)" by (cases p)
  have "encodeProps pf (ps @ (name, PUnknown t) # qs) = encodeProps pf (ps @ (name, PNull) # qs)"
    by (rule ext) (rule Cons)
  then show ?case by (simp add: p)
qed

lemma encodeExtensions_placeholder:
  "encodeExtensions pf (es @ (k, ps @ (name, PUnknown t) # qs) # fs) w =
   encodeExtensions pf (es @ (k, ps @ (name, PNull) # qs) # fs) w"
proof (induction es arbitrary: w)
  case Nil
  show ?case by (simp add: encodeProps_placeholder)
next
  case (Cons e es)
  obtain n v where e: "e = (n, v)" by (cases e)
  have "encodeExtensions pf (es @ (k, ps @ (name, PUnknown t) # qs) # fs) =
        encodeExtensions pf (es @ (k, ps @ (name, PNull) # qs) # fs)"
    by (rule ext) (rule Cons)
  then show ?case by (simp add: e)
qed

text \<open>
  C9 as stated fails: the encoder has no failure for a placeholder. For user data whose one
  property is the placeholder of the unknown type tag 99 it returns the chunk payload:
  flags 4, one extension with id 0 and one property, the name, the type tag 0 (Null) and
  no value bytes.
\<close>

theorem encodeUserDataChunk_placeholder_counterexample:
  "encodeUserDataChunk asciiPlatform placeholderUserData =
     Inr [4, 0, 0, 0, 1, 0, 0, 0, 0, 0, 0, 0, 1, 0, 0, 0, 1, 0, 112, 0, 0]"
  by (simp add: encodeUserDataChunk_def placeholderUserData_def asciiPlatform_def
      encodePropertiesMap_def w_string_def w_u32_def w_u16_def w_bytes_def le_bytes_numeral
      wbind_def lit_def parseInt_def isWhiteSpace_def isDigitOf_def digitValue_def
      UserDataFlags_HasText_def UserDataFlags_HasColor_def UserDataFlags_HasProperties_def
      PropertyType_Null_def Let_def encode_type_null [unfolded PropertyType_Null_def])

text \<open>
  C9, amended: encoding a UserData value whose properties contain a placeholder of an
  unknown property type tag does not fail with BadChunkSize (no encoding of user data
  does): \<open>getPropertyType\<close> gives the placeholder the type tag Null, for which nothing is
  written, so the property is emitted exactly as a null property of the same name would be.
\<close>

theorem encodeUserDataChunk_placeholder_as_null:
  "getPropertyType (PUnknown t) = PropertyType_Null
   \<and> encodePropertyValue pf (PUnknown t) (getPropertyType (PUnknown t)) w = Inr w
   \<and> encodeProps pf (ps @ (name, PUnknown t) # qs) w =
       encodeProps pf (ps @ (name, PNull) # qs) w
   \<and> encodeUserDataChunk pf
         (ud \<lparr> ud_properties := Some (es @ (k, ps @ (name, PUnknown t) # qs) # fs) \<rparr>) =
       encodeUserDataChunk pf
         (ud \<lparr> ud_properties := Some (es @ (k, ps @ (name, PNull) # qs) # fs) \<rparr>)
   \<and> encodeUserDataChunk pf ud \<noteq> Inl (AseFormatError BAD_CHUNK_SIZE)"
proof (intro conjI)
  show "encodeUserDataChunk pf
         (ud \<lparr> ud_properties := Some (es @ (k, ps @ (name, PUnknown t) # qs) # fs) \<rparr>) =
       encodeUserDataChunk pf
         (ud \<lparr> ud_properties := Some (es @ (k, ps @ (name, PNull) # qs) # fs) \<rparr>)"
    by (simp add: encodeUserDataChunk_def encodePropertiesMap_def encodeExtensions_placeholder
        Let_def del: encodeExtensions.simps cong: if_cong)
qed (simp_all add: encodeProps_placeholder encodeUserDataChunk_not_ase encode_type_null)

theorem encodeUserDataChunk_placeholder_as_null_witness:
  "encodeUserDataChunk asciiPlatform placeholderUserData =
   encodeUserDataChunk asciiPlatform
     (placeholderUserData \<lparr> ud_properties := Some [(lit ''ext_0'', [(lit ''p'', PNull)])] \<rparr>)"
  using encodeUserDataChunk_placeholder_as_null
    [where t = 99 and pf = asciiPlatform and ps = "[]" and qs = "[]" and name = "lit ''p''"
      and ud = placeholderUserData and es = "[]" and fs = "[]" and k = "lit ''ext_0''"]
  by (simp add: placeholderUserData_def del: encodeProps.simps)

subsection \<open>The reader monad and the parser on the example files\<close>

lemma rbind_Inr:
  "rbind m f r = Inr (v, r') \<longleftrightarrow> (\<exists>x r1. m r = Inr (x, r1) \<and> f x r1 = Inr (v, r'))"
  by (auto simp: rbind_def split: sum.splits)

lemma rret_Inr: "rret x r = Inr (v, r') \<longleftrightarrow> v = x \<and> r' = r"
  by (auto simp: rret_def)

lemma rfail_Inr: "rfail e r = Inr p \<longleftrightarrow> False"
  by (simp add: rfail_def)

lemmas rd_defs = rbind_def rret_def rfail_def r_getOffset_def r_length_def ensureBytes_def
  viewGet_def r_u8_def r_u16_def r_i16_def r_u32_def r_i32_def r_bytes_def r_string_def
  r_skip_def r_seek_def le_signed_def subarray_def relIndex_def

lemmas chunkType_defs = ChunkType_OldPalette1_def ChunkType_OldPalette2_def ChunkType_Layer_def
  ChunkType_Cel_def ChunkType_CelExtra_def ChunkType_ColorProfile_def
  ChunkType_ExternalFiles_def ChunkType_Mask_def ChunkType_Path_def ChunkType_Tags_def
  ChunkType_Palette_def ChunkType_UserData_def ChunkType_Slice_def ChunkType_Tileset_def

lemmas parse_defs = parseAseprite_def parseFrame_def parseFrameHeader_def parseOneChunk_def
  parseChunk_def collectChunk_def storedChunk_def attachUserData_def updCtx_def
  clearCursors_def mergeOptions_def DEFAULT_OPTIONS_def initialState_def assembleFile_def
  someIfNonEmpty_def ASE_FRAME_MAGIC_def ASE_FILE_MAGIC_def parseHeader_def

lemmas userData_defs = parseUserDataChunk_def hasFlag_def js_and_def asciiPlatform_def lit_def
  Let_def UserDataFlags_HasText_def UserDataFlags_HasColor_def UserDataFlags_HasProperties_def
  hiUserData_def

lemmas celType_defs = CelType_RawImage_def CelType_Linked_def CelType_CompressedImage_def
  CelType_CompressedTilemap_def

lemma parseAseprite_userDataFile:
  "parseAseprite asciiPlatform userDataFile None = Inr userDataFileResult"
  by (simp add: parse_defs rd_defs chunkType_defs userDataFile_def headerBytes_def
      userData_defs userDataFileResult_def)

lemma parseChunk_userDataFile:
  "parseChunk asciiPlatform ChunkType_UserData 158 initialState
     \<lparr> r_data = userDataFile, r_offset = 150 \<rparr> =
   Inr ((PUserDataChunk hiUserData, initialState), \<lparr> r_data = userDataFile, r_offset = 158 \<rparr>)"
  by (simp add: parse_defs rd_defs chunkType_defs userDataFile_def headerBytes_def
      userData_defs)

lemma parseAseprite_unknownCelFile:
  "parseAseprite asciiPlatform unknownCelFile None = Inl (Error (UnknownCelType 4))"
  by (simp add: parse_defs rd_defs chunkType_defs unknownCelFile_def headerBytes_def
      parseCelChunk_def Let_def celType_defs)

lemma parseFrameHeader_wideCountFrame:
  "parseFrameHeader True 100 \<lparr> r_data = wideCountFrame, r_offset = 0 \<rparr> =
     Inr (wideCountHeader, \<lparr> r_data = wideCountFrame, r_offset = 16 \<rparr>)"
  by (simp add: parse_defs rd_defs wideCountFrame_def wideCountHeader_def Let_def)









lemma parseOneChunk_userDataFile:
  "parseOneChunk asciiPlatform DEFAULT_OPTIONS 0 initialState
     \<lparr> r_data = userDataFile, r_offset = 144 \<rparr> =
   Inr (initialState \<lparr> st_chunks := [UserDataChunk hiUserData] \<rparr>,
        \<lparr> r_data = userDataFile, r_offset = 158 \<rparr>)"
  by (simp add: parse_defs rd_defs chunkType_defs userDataFile_def headerBytes_def
      userData_defs)

lemma parseOneChunk_userDataFile_bare:
  "parseOneChunk asciiPlatform noChunkLists 0 initialState
     \<lparr> r_data = userDataFile, r_offset = 144 \<rparr> =
   Inr (initialState, \<lparr> r_data = userDataFile, r_offset = 158 \<rparr>)"
  by (simp add: parse_defs rd_defs chunkType_defs userDataFile_def headerBytes_def
      userData_defs noChunkLists_def)

lemma chunk_header_userDataFile:
  "r_u32 \<lparr> r_data = userDataFile, r_offset = 144 \<rparr> =
     Inr (14, \<lparr> r_data = userDataFile, r_offset = 148 \<rparr>)"
  "r_u16 \<lparr> r_data = userDataFile, r_offset = 148 \<rparr> =
     Inr (ChunkType_UserData, \<lparr> r_data = userDataFile, r_offset = 150 \<rparr>)"
  "parseUserDataChunk asciiPlatform \<lparr> r_data = userDataFile, r_offset = 150 \<rparr> =
     Inr (hiUserData, \<lparr> r_data = userDataFile, r_offset = 158 \<rparr>)"
  by (simp_all add: rd_defs chunkType_defs userDataFile_def headerBytes_def userData_defs)

lemma parseAseprite_userDataFile_bare:
  "parseAseprite asciiPlatform userDataFile (Some withoutChunks) = Inr userDataFileBare"
  by (simp add: parse_defs rd_defs chunkType_defs userDataFile_def headerBytes_def
      userData_defs userDataFileResult_def userDataFileBare_def withoutChunks_def)

lemma parseChunk_userData_Inr:
  assumes "parseChunk pf ChunkType_UserData chunkEndOffset st r = Inr ((chunk, st'), r')"
  shows "\<exists>ud. parseUserDataChunk pf r = Inr (ud, r') \<and> chunk = PUserDataChunk ud
     \<and> st' = attachUserData ud st"
  using assms by (auto simp: parseChunk_def chunkType_defs rbind_Inr rret_Inr)

lemma collectChunk_userData_not_sprite:
  "lastAttachTarget (ctx st) \<noteq> Some TSprite \<Longrightarrow> collectChunk frameIdx (PUserDataChunk ud) st = st"
  by (simp add: collectChunk_def)

lemma attachUserData_no_target:
  assumes "lastAttachTarget (ctx st) = None" and "pendingTagUserData (ctx st) = None"
    and "pendingTilesetUserData (ctx st) = None"
  shows "attachUserData ud st = st"
  using assms by (simp add: attachUserData_def Let_def)


subsection \<open>The chunk count of a frame (C7)\<close>

















subsection \<open>The error of an unknown cel type (C8)\<close>

lemma nr_rbind:
  "neverRaises e m \<Longrightarrow> (\<And>x. neverRaises e (f x)) \<Longrightarrow> neverRaises e (rbind m f)"
  by (auto simp: neverRaises_def rbind_def split: sum.splits)

lemma nr_rret: "neverRaises e (rret x)"
  by (simp add: neverRaises_def rret_def)

lemma nr_rfail: "e \<noteq> e' \<Longrightarrow> neverRaises e (rfail e')"
  by (simp add: neverRaises_def rfail_def)

lemma nr_if:
  "(c \<Longrightarrow> neverRaises e a) \<Longrightarrow> (\<not> c \<Longrightarrow> neverRaises e b) \<Longrightarrow> neverRaises e (if c then a else b)"
  by simp

lemma nr_case_prod:
  "(\<And>a b. neverRaises e (f a b)) \<Longrightarrow> neverRaises e (case p of (a, b) \<Rightarrow> f a b)"
  by (cases p) simp

lemma nr_rloop: "neverRaises e m \<Longrightarrow> neverRaises e (rloop n m)"
  by (induction n) (auto intro!: nr_rbind nr_rret)

lemma nr_ensureBytes: "neverRaises (AseFormatError c) (ensureBytes n)"
  by (simp add: neverRaises_def ensureBytes_def)

lemma nr_viewGet: "neverRaises (AseFormatError c) (viewGet n)"
  by (auto simp: neverRaises_def viewGet_def ensureBytes_def rbind_def)

lemma nr_r_skip: "neverRaises (AseFormatError c) (r_skip n)"
  by (auto simp: neverRaises_def r_skip_def ensureBytes_def rbind_def)

lemma nr_r_seek: "neverRaises (AseFormatError c) (r_seek n)"
  by (auto simp: neverRaises_def r_seek_def)

lemma nr_r_bytes: "neverRaises (AseFormatError c) (r_bytes n)"
  by (auto simp: neverRaises_def r_bytes_def ensureBytes_def rbind_def)

lemma nr_r_getOffset: "neverRaises e r_getOffset"
  by (simp add: neverRaises_def r_getOffset_def)

lemma nr_r_length: "neverRaises e r_length"
  by (simp add: neverRaises_def r_length_def)

lemma nr_propertyDepth: "neverRaises e propertyDepth"
  by (simp add: neverRaises_def propertyDepth_def)

lemmas nr_basic = nr_rbind nr_rret nr_if nr_case_prod nr_rloop nr_viewGet nr_r_skip nr_r_seek
  nr_r_bytes nr_r_getOffset nr_r_length nr_propertyDepth

lemma nr_ints:
  "neverRaises (AseFormatError c) r_u8" "neverRaises (AseFormatError c) r_u16"
  "neverRaises (AseFormatError c) r_i16" "neverRaises (AseFormatError c) r_u32"
  "neverRaises (AseFormatError c) r_i32" "neverRaises (AseFormatError c) r_u64"
  "neverRaises (AseFormatError c) r_i64" "neverRaises (AseFormatError c) r_fixed16_16"
  "neverRaises (AseFormatError c) (r_f32 pf)" "neverRaises (AseFormatError c) (r_f64 pf)"
  unfolding r_u8_def r_u16_def r_i16_def r_u32_def r_i32_def r_u64_def r_i64_def
    r_fixed16_16_def r_f32_def r_f64_def
  by (intro nr_basic)+

lemma nr_r_string: "neverRaises (AseFormatError c) (r_string pf)"
  unfolding r_string_def by (intro nr_basic nr_ints)

lemma nr_r_uuid: "neverRaises (AseFormatError c) r_uuid"
  unfolding r_uuid_def Let_def by (intro nr_basic nr_ints)

lemmas nr_reader = nr_basic nr_ints nr_r_string nr_r_uuid

lemma nr_parseCelChunk: "neverRaises (AseFormatError c) (parseCelChunk chunkEndOffset)"
  unfolding parseCelChunk_def Let_def by (intro nr_reader nr_rfail) simp

lemma nr_parseLayerChunk: "neverRaises (AseFormatError c) (parseLayerChunk pf)"
  unfolding parseLayerChunk_def Let_def by (intro nr_reader)

lemma nr_parseCelExtraChunk: "neverRaises (AseFormatError c) parseCelExtraChunk"
  unfolding parseCelExtraChunk_def by (intro nr_reader)

lemma nr_parsePaletteChunk: "neverRaises (AseFormatError c) (parsePaletteChunk pf)"
  unfolding parsePaletteChunk_def by (intro nr_reader)

lemma nr_parseOldPaletteChunk: "neverRaises (AseFormatError c) parseOldPaletteChunk"
  unfolding parseOldPaletteChunk_def by (intro nr_reader)

lemma nr_parseTagsChunk: "neverRaises (AseFormatError c) (parseTagsChunk pf)"
  unfolding parseTagsChunk_def by (intro nr_reader)

lemma nr_parsePropertyValue:
  "neverRaises (AseFormatError c) (parsePropertyValue depth pf propType)"
proof (induction depth arbitrary: propType)
  case 0
  show ?case by (simp add: nr_rfail)
next
  case (Suc depth)
  show ?case unfolding parsePropertyValue.simps by (intro nr_reader Suc)
qed

lemma nr_parsePropertiesMap: "neverRaises (AseFormatError c) (parsePropertiesMap pf)"
  unfolding parsePropertiesMap_def by (intro nr_reader nr_parsePropertyValue)

lemma nr_parseUserDataChunk: "neverRaises (AseFormatError c) (parseUserDataChunk pf)"
  unfolding parseUserDataChunk_def by (intro nr_reader nr_parsePropertiesMap)

lemma nr_parseSliceChunk: "neverRaises (AseFormatError c) (parseSliceChunk pf)"
  unfolding parseSliceChunk_def by (intro nr_reader)

lemma nr_parseTilesetChunk: "neverRaises (AseFormatError c) (parseTilesetChunk pf)"
  unfolding parseTilesetChunk_def by (intro nr_reader)

lemma nr_parseColorProfileChunk: "neverRaises (AseFormatError c) parseColorProfileChunk"
  unfolding parseColorProfileChunk_def by (intro nr_reader)

lemma nr_parseExternalFilesChunk: "neverRaises (AseFormatError c) (parseExternalFilesChunk pf)"
  unfolding parseExternalFilesChunk_def by (intro nr_reader)

lemmas nr_chunks = nr_parseCelChunk nr_parseLayerChunk nr_parseCelExtraChunk
  nr_parsePaletteChunk nr_parseOldPaletteChunk nr_parseTagsChunk nr_parseUserDataChunk
  nr_parseSliceChunk nr_parseTilesetChunk nr_parseColorProfileChunk
  nr_parseExternalFilesChunk

lemma nr_parseChunk: "neverRaises (AseFormatError c) (parseChunk pf chunkType chunkEndOffset st)"
  unfolding parseChunk_def by (intro nr_reader nr_chunks)

lemma nr_parseOneChunk:
  "neverRaises (AseFormatError INVALID_CEL_TYPE) (parseOneChunk pf options frameIdx st)"
  unfolding parseOneChunk_def Let_def by (intro nr_reader nr_parseChunk nr_rfail) simp

lemma nr_parseChunks:
  "neverRaises (AseFormatError INVALID_CEL_TYPE) (parseChunks n pf options frameIdx st)"
  by (induction n arbitrary: st) (auto intro!: nr_rbind nr_rret nr_parseOneChunk)

lemma nr_parseFrameHeader:
  "neverRaises (AseFormatError INVALID_CEL_TYPE) (parseFrameHeader strictMode sp)"
  unfolding parseFrameHeader_def Let_def by (intro nr_reader nr_rfail) simp

lemma nr_parseFrame:
  "neverRaises (AseFormatError INVALID_CEL_TYPE) (parseFrame pf options sp frameIdx st)"
  unfolding parseFrame_def Let_def by (intro nr_reader nr_parseFrameHeader nr_parseChunks)

lemma nr_parseFrames:
  "neverRaises (AseFormatError INVALID_CEL_TYPE) (parseFrames n pf options sp frameIdx st)"
  by (induction n arbitrary: st frameIdx) (auto intro!: nr_rbind nr_rret nr_parseFrame)

lemma nr_parseHeader: "neverRaises (AseFormatError INVALID_CEL_TYPE) (parseHeader strictMode)"
  unfolding parseHeader_def by (intro nr_reader nr_rfail) simp_all

lemma parseAseprite_never_invalid_cel_type:
  "parseAseprite pf bytes opts \<noteq> Inl (AseFormatError INVALID_CEL_TYPE)"
proof -
  have "neverRaises (AseFormatError INVALID_CEL_TYPE)
     (rbind (parseHeader (opt_strict (mergeOptions opts))) (\<lambda>h.
      rbind (parseFrames (nat (frameCount h)) pf (mergeOptions opts) (speed h) 0 initialState)
        (\<lambda>st. rret (assembleFile h st))))"
    by (intro nr_reader nr_parseHeader nr_parseFrames)
  then show ?thesis
    by (auto simp: parseAseprite_def Let_def neverRaises_def split: sum.splits)
qed

lemma parseCelChunk_plain_error:
  assumes "0 \<le> r_offset r" and "r_offset r + 16 \<le> int (length (r_data r))"
    and "t = le_value (take 2 (drop (nat (r_offset r) + 7) (r_data r)))"
    and "t \<notin> {CelType_RawImage, CelType_Linked, CelType_CompressedImage, CelType_CompressedTilemap}"
  shows "parseCelChunk chunkEndOffset r = Inl (Error (UnknownCelType t))"
  using assms
  by (simp add: parseCelChunk_def rbind_def rret_def rfail_def ensureBytes_def viewGet_def
      r_u8_def r_u16_def r_i16_def r_skip_def Let_def nat_add_distrib add_ac)

text \<open>
  C8: a cel chunk whose common prefix can be read and whose variant tag is none of
  RawImage, Linked, CompressedImage and CompressedTilemap makes \<open>parseCelChunk\<close> throw the
  plain \<open>Error\<close> "Unknown cel type", not an \<open>AseFormatError\<close>; neither \<open>parseCelChunk\<close> nor
  \<open>parseAseprite\<close> ever throws an \<open>AseFormatError\<close> of code INVALID_CEL_TYPE; and the file
  \<open>unknownCelFile\<close>, whose cel chunk has the tag 4, fails to parse with that plain error.
\<close>

theorem parseCelChunk_unknown_cel_type:
  "(0 \<le> r_offset r \<and> r_offset r + 16 \<le> int (length (r_data r)) \<and>
    le_value (take 2 (drop (nat (r_offset r) + 7) (r_data r))) \<notin>
      {CelType_RawImage, CelType_Linked, CelType_CompressedImage, CelType_CompressedTilemap}
    \<longrightarrow> parseCelChunk chunkEndOffset r =
          Inl (Error (UnknownCelType (le_value (take 2 (drop (nat (r_offset r) + 7) (r_data r)))))))
   \<and> parseCelChunk chunkEndOffset r \<noteq> Inl (AseFormatError INVALID_CEL_TYPE)
   \<and> parseAseprite pf bytes opts \<noteq> Inl (AseFormatError INVALID_CEL_TYPE)
   \<and> parseAseprite asciiPlatform unknownCelFile None = Inl (Error (UnknownCelType 4))"
proof (intro conjI impI)
  assume "0 \<le> r_offset r \<and> r_offset r + 16 \<le> int (length (r_data r)) \<and>
    le_value (take 2 (drop (nat (r_offset r) + 7) (r_data r))) \<notin>
      {CelType_RawImage, CelType_Linked, CelType_CompressedImage, CelType_CompressedTilemap}"
  then show "parseCelChunk chunkEndOffset r =
          Inl (Error (UnknownCelType (le_value (take 2 (drop (nat (r_offset r) + 7) (r_data r))))))"
    using parseCelChunk_plain_error [OF _ _ refl] by blast
next
  show "parseCelChunk chunkEndOffset r \<noteq> Inl (AseFormatError INVALID_CEL_TYPE)"
    using nr_parseCelChunk [of INVALID_CEL_TYPE chunkEndOffset] by (simp add: neverRaises_def)
next
  show "parseAseprite pf bytes opts \<noteq> Inl (AseFormatError INVALID_CEL_TYPE)"
    by (rule parseAseprite_never_invalid_cel_type)
next
  show "parseAseprite asciiPlatform unknownCelFile None = Inl (Error (UnknownCelType 4))"
    by (rule parseAseprite_unknownCelFile)
qed

theorem parseCelChunk_unknown_cel_type_witness:
  "parseCelChunk 166 \<lparr> r_data = unknownCelFile, r_offset = 150 \<rparr> = Inl (Error (UnknownCelType 4))
   \<and> le_value (take 2 (drop 157 unknownCelFile)) = 4
   \<and> (4::int) \<notin> {CelType_RawImage, CelType_Linked, CelType_CompressedImage,
         CelType_CompressedTilemap}"
  using parseCelChunk_unknown_cel_type [of "\<lparr> r_data = unknownCelFile, r_offset = 150 \<rparr>" 166]
  by (simp add: unknownCelFile_def headerBytes_def celType_defs)


subsection \<open>Sprite-level user data is never set (C10)\<close>

lemma noSprite_initialState: "noSprite initialState"
  by (simp add: noSprite_def initialState_def)

lemma target_attachUserData:
  "lastAttachTarget (ctx (attachUserData ud st)) = lastAttachTarget (ctx st)"
  by (auto simp: attachUserData_def updCtx_def updCel_def Let_def
      split: option.splits attachTarget.splits prod.splits)

lemma sprite_attachUserData:
  "st_spriteUserData (attachUserData ud st) = st_spriteUserData st"
  by (auto simp: attachUserData_def updCtx_def updCel_def Let_def
      split: option.splits attachTarget.splits prod.splits)

lemma target_clearCursors: "lastAttachTarget (ctx (clearCursors target st)) = target"
  by (simp add: clearCursors_def updCtx_def)

lemma sprite_clearCursors: "st_spriteUserData (clearCursors target st) = st_spriteUserData st"
  by (simp add: clearCursors_def updCtx_def)

lemma target_parseChunk:
  assumes "parseChunk pf chunkType chunkEndOffset st r = Inr ((chunk, st'), r')"
    and "lastAttachTarget (ctx st) \<noteq> Some TSprite"
  shows "lastAttachTarget (ctx st') \<noteq> Some TSprite"
  using assms
  by (auto simp: parseChunk_def rbind_Inr rret_Inr target_clearCursors target_attachUserData
      updCtx_def split: if_splits option.splits)

lemma sprite_parseChunk:
  assumes "parseChunk pf chunkType chunkEndOffset st r = Inr ((chunk, st'), r')"
  shows "st_spriteUserData st' = st_spriteUserData st"
  using assms
  by (auto simp: parseChunk_def rbind_Inr rret_Inr sprite_clearCursors sprite_attachUserData
      updCtx_def split: if_splits option.splits)

lemma noSprite_parseChunk:
  assumes "parseChunk pf chunkType chunkEndOffset st r = Inr ((chunk, st'), r')"
    and "noSprite st"
  shows "noSprite st'"
  using target_parseChunk [OF assms(1)] sprite_parseChunk [OF assms(1)] assms(2)
  by (simp add: noSprite_def)

lemma noSprite_collectChunk: "noSprite st \<Longrightarrow> noSprite (collectChunk frameIdx chunk st)"
  by (auto simp: noSprite_def collectChunk_def split: parsedChunk.splits)

lemma noSprite_parseOneChunk:
  assumes "parseOneChunk pf options frameIdx st r = Inr (st', r')" and "noSprite st"
  shows "noSprite st'"
proof -
  from assms(1) obtain ty e chunk st1 r1 r2 where
    p: "parseChunk pf ty e st r1 = Inr ((chunk, st1), r2)"
    and s: "st' = (let st2 = collectChunk frameIdx chunk st1
                   in if opt_preserveChunks options
                      then st2 \<lparr> st_chunks := st_chunks st2 @ [storedChunk chunk st1] \<rparr>
                      else st2)"
    by (auto simp: parseOneChunk_def rbind_Inr rret_Inr rfail_Inr Let_def split: if_splits)
  from noSprite_parseChunk [OF p assms(2)] have "noSprite (collectChunk frameIdx chunk st1)"
    by (rule noSprite_collectChunk)
  then show ?thesis by (simp add: s noSprite_def Let_def)
qed

lemma noSprite_parseChunks:
  "parseChunks n pf options frameIdx st r = Inr (st', r') \<Longrightarrow> noSprite st \<Longrightarrow> noSprite st'"
proof (induction n arbitrary: st r)
  case 0
  then show ?case by (simp add: rret_Inr)
next
  case (Suc n)
  from Suc.prems(1) obtain st1 r1 where
    a: "parseOneChunk pf options frameIdx st r = Inr (st1, r1)"
    and b: "parseChunks n pf options frameIdx st1 r1 = Inr (st', r')"
    by (auto simp: rbind_Inr)
  from noSprite_parseOneChunk [OF a Suc.prems(2)] Suc.IH [OF b] show ?case by blast
qed

lemma noSprite_parseFrame:
  assumes "parseFrame pf options sp frameIdx st r = Inr (st', r')" and "noSprite st"
  shows "noSprite st'"
proof -
  let ?st0 = "(updCtx (\<lambda>c. c \<lparr> ctx_frameIndex := frameIdx, lastCel := None \<rparr>) st)
      \<lparr> st_cels := [], st_chunks := [] \<rparr>"
  from assms(1) obtain n st1 r1 r2 fr where
    a: "parseChunks n pf options frameIdx ?st0 r1 = Inr (st1, r2)"
    and b: "st' = st1 \<lparr> st_frames := st_frames st1 @ [fr] \<rparr>"
    by (auto simp: parseFrame_def rbind_Inr rret_Inr Let_def)
  have "noSprite ?st0" using assms(2) by (simp add: noSprite_def updCtx_def)
  from noSprite_parseChunks [OF a this] show ?thesis by (simp add: b noSprite_def)
qed

lemma noSprite_parseFrames:
  "parseFrames n pf options sp frameIdx st r = Inr (st', r') \<Longrightarrow> noSprite st \<Longrightarrow> noSprite st'"
proof (induction n arbitrary: st r frameIdx)
  case 0
  then show ?case by (simp add: rret_Inr)
next
  case (Suc n)
  from Suc.prems(1) obtain st1 r1 where
    a: "parseFrame pf options sp frameIdx st r = Inr (st1, r1)"
    and b: "parseFrames n pf options sp (Suc frameIdx) st1 r1 = Inr (st', r')"
    by (auto simp: rbind_Inr)
  from noSprite_parseFrame [OF a Suc.prems(2)] Suc.IH [OF b] show ?case by blast
qed

lemma parseOneChunk_userData_kept:
  assumes p: "parseOneChunk pf options i st r = Inr (st', r')"
    and sz: "r_u32 r = Inr (chunkSize, r1)" and ty: "r_u16 r1 = Inr (ChunkType_UserData, r2)"
    and t: "lastAttachTarget (ctx st) = None" "pendingTagUserData (ctx st) = None"
      "pendingTilesetUserData (ctx st) = None"
  shows "\<exists>ud r3. parseUserDataChunk pf r2 = Inr (ud, r3)
     \<and> st' = (if opt_preserveChunks options
               then st \<lparr> st_chunks := st_chunks st @ [UserDataChunk ud] \<rparr> else st)"
proof -
  from p sz ty obtain e chunk st1 r3 where
    c: "parseChunk pf ChunkType_UserData e st r2 = Inr ((chunk, st1), r3)"
    and s: "st' = (let st2 = collectChunk i chunk st1
                   in if opt_preserveChunks options
                      then st2 \<lparr> st_chunks := st_chunks st2 @ [storedChunk chunk st1] \<rparr>
                      else st2)"
    by (auto simp: parseOneChunk_def rbind_Inr rret_Inr rfail_Inr Let_def r_getOffset_def
        r_length_def split: if_splits)
  from parseChunk_userData_Inr [OF c] obtain ud where
    u: "parseUserDataChunk pf r2 = Inr (ud, r3)" "chunk = PUserDataChunk ud"
      "st1 = attachUserData ud st"
    by blast
  have s1: "st1 = st" using u(3) t by (simp add: attachUserData_no_target)
  have "collectChunk i chunk st1 = st"
    using t(1) by (simp add: u(2) s1 collectChunk_userData_not_sprite)
  then have "st' = (if opt_preserveChunks options
               then st \<lparr> st_chunks := st_chunks st @ [UserDataChunk ud] \<rparr> else st)"
    by (simp add: s Let_def u(2) storedChunk_def)
  with u(1) show ?thesis by blast
qed

text \<open>
  C10 as stated fails in its last clause: the user data of the chunk is not discarded from
  the file. With the default options the file parsed from \<open>userDataFile\<close>, whose first
  frame holds only a UserData chunk, keeps it in the chunk list of that frame.
\<close>

theorem parseAseprite_userData_kept_counterexample:
  "parseAseprite asciiPlatform userDataFile None = Inr userDataFileResult
   \<and> chunks (hd (frames userDataFileResult)) = Some [UserDataChunk hiUserData]"
  by (simp add: parseAseprite_userDataFile) (simp add: userDataFileResult_def)

text \<open>
  C10, amended: the file that \<open>parseAseprite\<close> returns, on any bytes and with any options,
  has no sprite-level user data. No chunk turns the attach target into \<open>sprite\<close>:
  \<open>parseChunk\<close> keeps a target that is not \<open>sprite\<close> so, and the first state has none. A
  round of the chunk loop on a UserData chunk that arrives with no attach target and no
  pending tags or tileset attaches the user data to no object: with \<open>preserveChunks\<close> its
  only effect on the state is the chunk appended to the chunk list of the frame, and
  without \<open>preserveChunks\<close> the state is as before, the user data dropped.
\<close>

theorem parseAseprite_no_sprite_userData:
  "(parseAseprite pf bytes opts = Inr file \<longrightarrow> file_userData file = None)
   \<and> (parseChunk pf chunkType chunkEndOffset st r = Inr ((chunk, st'), r') \<and>
        lastAttachTarget (ctx st) \<noteq> Some TSprite \<longrightarrow> lastAttachTarget (ctx st') \<noteq> Some TSprite)
   \<and> lastAttachTarget (ctx initialState) \<noteq> Some TSprite
   \<and> (lastAttachTarget (ctx st0) = None \<and> pendingTagUserData (ctx st0) = None \<and>
        pendingTilesetUserData (ctx st0) = None \<longrightarrow> attachUserData ud st0 = st0)
   \<and> (parseOneChunk pf options i st0 r0 = Inr (st1, r4) \<and>
        r_u32 r0 = Inr (chunkSize, r1) \<and> r_u16 r1 = Inr (ChunkType_UserData, r2) \<and>
        lastAttachTarget (ctx st0) = None \<and> pendingTagUserData (ctx st0) = None \<and>
        pendingTilesetUserData (ctx st0) = None
        \<longrightarrow> (\<exists>ud r3. parseUserDataChunk pf r2 = Inr (ud, r3)
               \<and> st1 = (if opt_preserveChunks options
                         then st0 \<lparr> st_chunks := st_chunks st0 @ [UserDataChunk ud] \<rparr>
                         else st0)))"
proof (intro conjI impI)
  assume "parseAseprite pf bytes opts = Inr file"
  then obtain h n sp st r0 r1 where
    a: "parseFrames n pf (mergeOptions opts) sp 0 initialState r0 = Inr (st, r1)"
    and b: "file = assembleFile h st"
    by (auto simp: parseAseprite_def Let_def rbind_Inr rret_Inr split: sum.splits)
  from noSprite_parseFrames [OF a noSprite_initialState]
  show "file_userData file = None" by (simp add: b assembleFile_def noSprite_def)
next
  assume "parseChunk pf chunkType chunkEndOffset st r = Inr ((chunk, st'), r') \<and>
        lastAttachTarget (ctx st) \<noteq> Some TSprite"
  then show "lastAttachTarget (ctx st') \<noteq> Some TSprite"
    using target_parseChunk by blast
next
  show "lastAttachTarget (ctx initialState) \<noteq> Some TSprite"
    by (simp add: initialState_def)
next
  assume "lastAttachTarget (ctx st0) = None \<and> pendingTagUserData (ctx st0) = None \<and>
        pendingTilesetUserData (ctx st0) = None"
  then show "attachUserData ud st0 = st0" by (simp add: attachUserData_no_target)
next
  assume "parseOneChunk pf options i st0 r0 = Inr (st1, r4) \<and>
        r_u32 r0 = Inr (chunkSize, r1) \<and> r_u16 r1 = Inr (ChunkType_UserData, r2) \<and>
        lastAttachTarget (ctx st0) = None \<and> pendingTagUserData (ctx st0) = None \<and>
        pendingTilesetUserData (ctx st0) = None"
  then show "\<exists>ud r3. parseUserDataChunk pf r2 = Inr (ud, r3)
               \<and> st1 = (if opt_preserveChunks options
                         then st0 \<lparr> st_chunks := st_chunks st0 @ [UserDataChunk ud] \<rparr>
                         else st0)"
    using parseOneChunk_userData_kept [of pf options i st0 r0 st1 r4 chunkSize r1 r2] by blast
qed

theorem parseAseprite_no_sprite_userData_witness:
  "parseAseprite asciiPlatform userDataFile None = Inr userDataFileResult
   \<and> file_userData userDataFileResult = None
   \<and> parseAseprite asciiPlatform userDataFile (Some withoutChunks) = Inr userDataFileBare
   \<and> file_userData userDataFileBare = None
   \<and> frames userDataFileBare = [\<lparr> durationMs = 100, cels = [], chunks = None \<rparr>]
   \<and> parseChunk asciiPlatform ChunkType_UserData 158 initialState
        \<lparr> r_data = userDataFile, r_offset = 150 \<rparr> =
      Inr ((PUserDataChunk hiUserData, initialState), \<lparr> r_data = userDataFile, r_offset = 158 \<rparr>)
   \<and> lastAttachTarget (ctx initialState) = None
   \<and> pendingTagUserData (ctx initialState) = None
   \<and> pendingTilesetUserData (ctx initialState) = None
   \<and> attachUserData hiUserData initialState = initialState
   \<and> r_u32 \<lparr> r_data = userDataFile, r_offset = 144 \<rparr> =
        Inr (14, \<lparr> r_data = userDataFile, r_offset = 148 \<rparr>)
   \<and> r_u16 \<lparr> r_data = userDataFile, r_offset = 148 \<rparr> =
        Inr (ChunkType_UserData, \<lparr> r_data = userDataFile, r_offset = 150 \<rparr>)
   \<and> parseOneChunk asciiPlatform DEFAULT_OPTIONS 0 initialState
        \<lparr> r_data = userDataFile, r_offset = 144 \<rparr> =
      Inr (initialState \<lparr> st_chunks := [UserDataChunk hiUserData] \<rparr>,
           \<lparr> r_data = userDataFile, r_offset = 158 \<rparr>)
   \<and> parseOneChunk asciiPlatform noChunkLists 0 initialState
        \<lparr> r_data = userDataFile, r_offset = 144 \<rparr> =
      Inr (initialState, \<lparr> r_data = userDataFile, r_offset = 158 \<rparr>)
   \<and> opt_preserveChunks DEFAULT_OPTIONS \<and> \<not> opt_preserveChunks noChunkLists"
proof -
  let ?r = "\<lambda>k. \<lparr> r_data = userDataFile, r_offset = k \<rparr>"
  have i: "lastAttachTarget (ctx initialState) = None"
    "pendingTagUserData (ctx initialState) = None"
    "pendingTilesetUserData (ctx initialState) = None"
    by (simp_all add: initialState_def)
  have o: "opt_preserveChunks DEFAULT_OPTIONS" "\<not> opt_preserveChunks noChunkLists"
    by (simp_all add: DEFAULT_OPTIONS_def noChunkLists_def)
  have b: "file_userData userDataFileBare = None"
    using parseAseprite_no_sprite_userData
      [where pf = asciiPlatform and bytes = userDataFile and opts = "Some withoutChunks"
        and ?file = userDataFileBare]
    by (simp add: parseAseprite_userDataFile_bare)
  have a: "file_userData userDataFileResult = None
     \<and> attachUserData hiUserData initialState = initialState"
    using parseAseprite_no_sprite_userData
      [where pf = asciiPlatform and bytes = userDataFile and opts = None
        and ?file = userDataFileResult and chunkType = ChunkType_UserData
        and chunkEndOffset = 158 and st = initialState and r = "?r 150"
        and chunk = "PUserDataChunk hiUserData" and st' = initialState and r' = "?r 158"
        and ?st0.0 = initialState and ud = hiUserData and options = DEFAULT_OPTIONS
        and i = 0 and ?r0.0 = "?r 144"
        and ?st1.0 = "initialState \<lparr> st_chunks := [UserDataChunk hiUserData] \<rparr>"
        and ?r4.0 = "?r 158" and chunkSize = 14 and ?r1.0 = "?r 148" and ?r2.0 = "?r 150"]
    by (simp add: parseAseprite_userDataFile parseChunk_userDataFile i)
  have f: "frames userDataFileBare = [\<lparr> durationMs = 100, cels = [], chunks = None \<rparr>]"
    by (simp add: userDataFileBare_def)
  from a b f i o show ?thesis
    by (simp add: parseAseprite_userDataFile parseAseprite_userDataFile_bare
        parseChunk_userDataFile chunk_header_userDataFile parseOneChunk_userDataFile
        parseOneChunk_userDataFile_bare)
qed


subsection \<open>User data before any attachable object (C1)\<close>

text \<open>
  C1: a UserData chunk that \<open>parseChunk\<close> reads with no attach target, no pending tags and
  no pending tileset leaves the state as it was, and collecting it in frame 0 takes no
  sprite-level user data. The file \<open>userDataFile\<close>, whose first frame holds only such a
  chunk, parses to a file without sprite-level user data; its chunk is kept in the
  frame's chunk list alone.
\<close>

theorem parseChunk_userData_without_target:
  "(parseChunk pf ChunkType_UserData chunkEndOffset st r = Inr ((chunk, st'), r') \<and>
    lastAttachTarget (ctx st) = None \<and> pendingTagUserData (ctx st) = None \<and>
    pendingTilesetUserData (ctx st) = None
    \<longrightarrow> st' = st
        \<and> (\<exists>ud. chunk = PUserDataChunk ud \<and> parseUserDataChunk pf r = Inr (ud, r'))
        \<and> collectChunk 0 chunk st' = st
        \<and> st_spriteUserData (collectChunk 0 chunk st') = st_spriteUserData st)
   \<and> parseAseprite asciiPlatform userDataFile None = Inr userDataFileResult
   \<and> file_userData userDataFileResult = None
   \<and> frames userDataFileResult =
       [\<lparr> durationMs = 100, cels = [], chunks = Some [UserDataChunk hiUserData] \<rparr>]"
proof (intro conjI impI)
  assume a: "parseChunk pf ChunkType_UserData chunkEndOffset st r = Inr ((chunk, st'), r') \<and>
    lastAttachTarget (ctx st) = None \<and> pendingTagUserData (ctx st) = None \<and>
    pendingTilesetUserData (ctx st) = None"
  then obtain ud where
    u: "parseUserDataChunk pf r = Inr (ud, r')" "chunk = PUserDataChunk ud"
      "st' = attachUserData ud st"
    using parseChunk_userData_Inr by blast
  from a have s: "attachUserData ud st = st" by (simp add: attachUserData_def Let_def)
  show "st' = st" by (simp add: u s)
  show "\<exists>ud. chunk = PUserDataChunk ud \<and> parseUserDataChunk pf r = Inr (ud, r')"
    using u by blast
  show c: "collectChunk 0 chunk st' = st"
    using a by (simp add: u s collectChunk_userData_not_sprite)
  show "st_spriteUserData (collectChunk 0 chunk st') = st_spriteUserData st"
    by (simp add: c)
next
  show "parseAseprite asciiPlatform userDataFile None = Inr userDataFileResult"
    by (rule parseAseprite_userDataFile)
next
  show "file_userData userDataFileResult = None" by (simp add: userDataFileResult_def)
next
  show "frames userDataFileResult =
       [\<lparr> durationMs = 100, cels = [], chunks = Some [UserDataChunk hiUserData] \<rparr>]"
    by (simp add: userDataFileResult_def)
qed

theorem parseChunk_userData_without_target_witness:
  "parseChunk asciiPlatform ChunkType_UserData 158 initialState
        \<lparr> r_data = userDataFile, r_offset = 150 \<rparr> =
      Inr ((PUserDataChunk hiUserData, initialState), \<lparr> r_data = userDataFile, r_offset = 158 \<rparr>)
   \<and> lastAttachTarget (ctx initialState) = None
   \<and> pendingTagUserData (ctx initialState) = None
   \<and> pendingTilesetUserData (ctx initialState) = None
   \<and> collectChunk 0 (PUserDataChunk hiUserData) initialState = initialState
   \<and> st_spriteUserData (collectChunk 0 (PUserDataChunk hiUserData) initialState) = None"
  using parseChunk_userData_without_target
    [of asciiPlatform 158 initialState "\<lparr> r_data = userDataFile, r_offset = 150 \<rparr>"
      "PUserDataChunk hiUserData" initialState "\<lparr> r_data = userDataFile, r_offset = 158 \<rparr>"]
  by (simp add: parseChunk_userDataFile) (simp add: initialState_def)

end
